theory Spec2Isabelle
  imports Complex_Main
begin

section \<open>Conventions of the embedding\<close>

text \<open>
  The routing core of RHESSys (\<^verbatim>\<open>hydro_routing.c\<close>) and the snow interception routine
  (\<^verbatim>\<open>compute_potential_snow_interception.c\<close>) are embedded as HOL functions.

  \<^item> A C \<^verbatim>\<open>double\<close> is a \<^typ>\<open>real\<close>: every statement below is one of exact arithmetic.
    Where the C divides by zero it produces an infinity or a NaN, whereas HOL's
    \<open>x / 0\<close> is \<open>0\<close>; the model and the program agree wherever the divisors are non-zero.
    In \<^verbatim>\<open>sfc_routing\<close> the program divides by the surface water and by the depth of the
    water table, which are zero on a dry and on a saturated patch, and it compares the
    results. There the formulas are taken over a type that has the infinities and NaN;
    the working columns hold numbers throughout, and a step that would store an infinity
    or a NaN in them has no result columns.
  \<^item> A C array is a function from the index to the element (\<open>'a array\<close>). An entry that
    the program never wrote holds whatever the memory held; such contents are
    parameters of the model.
  \<^item> \<^verbatim>\<open>unsigned\<close> counters and subscripts are \<^typ>\<open>nat\<close>, \<^verbatim>\<open>int\<close> is \<^typ>\<open>int\<close>; the
    values stay far below \<open>2^31\<close>, no wrap-around is modelled.
  \<^item> A pointer to a patch is an address (\<^typ>\<open>nat\<close>); the patches live in a heap.
\<close>

type_synonym 'a array = "nat \<Rightarrow> 'a"
type_synonym 'a array2 = "nat \<Rightarrow> nat \<Rightarrow> 'a"

subsection \<open>Constants of \<^verbatim>\<open>hydro_routing.c\<close>\<close>

definition MAXNEIGHBOR :: nat where
  "MAXNEIGHBOR = 16"

definition TWOTHD :: real where
  "TWOTHD = 2 / 3"

definition EPSILON :: real where
  "EPSILON = 1 / 100000"

text \<open>\<^verbatim>\<open>init_hydro_routing\<close> sets the two static tunables once: \<^verbatim>\<open>CPLMAX = 1800.0\<close>
  (the largest coupling step, in seconds) and \<^verbatim>\<open>COUMAX = 0.2\<close> (the Courant number).\<close>

definition CPLMAX :: real where
  "CPLMAX = 1800"

definition COUMAX :: real where
  "COUMAX = 2 / 10"

text \<open>The tables of the transmissivity pass.\<close>

definition normal :: "real list" where
  "normal = [0, 253 / 1000, 524 / 1000, 842 / 1000, 1283 / 1000,
             - (253 / 1000), - (524 / 1000), - (842 / 1000), - (1283 / 1000)]"

definition perc :: "real list" where
  "perc = [2 / 10, 1 / 10, 1 / 10, 1 / 10, 1 / 10, 1 / 10, 1 / 10, 1 / 10, 1 / 10]"

text \<open>
  Modelled from the spec: the macros \<^verbatim>\<open>min\<close>, \<^verbatim>\<open>MIN\<close> and \<^verbatim>\<open>MAX\<close> come from
  \<^verbatim>\<open>rhessys.h\<close>, which is not among the sources; the spec reads them as the smaller and
  the larger of two numbers, so they are HOL's \<^const>\<open>min\<close> and \<^const>\<open>max\<close>. The macro
  \<^verbatim>\<open>ZERO\<close> of the same header (a small threshold) and the constant \<^verbatim>\<open>NON_VEG\<close> are
  parameters of the functions that use them.
\<close>

section \<open>\<^verbatim>\<open>compute_potential_snow_interception\<close>\<close>

text \<open>The fields of \<^verbatim>\<open>struct canopy_strata_object\<close> that the routine reads;
  \<open>veg_type\<close> is \<^verbatim>\<open>defaults[0][0].epc.veg_type\<close>, \<open>specific_snow_capacity\<close> is
  \<^verbatim>\<open>defaults[0][0].specific_snow_capacity\<close> and \<open>all_pai\<close> is \<^verbatim>\<open>epv.all_pai\<close>.\<close>

record canopy_strata_object =
  gap_fraction :: real
  all_pai :: real
  snow_stored :: real
  specific_snow_capacity :: real
  veg_type :: int

definition compute_potential_snow_interception ::
  "int \<Rightarrow> real \<Rightarrow> canopy_strata_object \<Rightarrow> real" where
  "compute_potential_snow_interception NON_VEG snow stratum =
     (let interception_coef = 1 - gap_fraction stratum;
          potential_interception =
            (if veg_type stratum \<noteq> NON_VEG
             then min (interception_coef * snow)
                      (all_pai stratum * specific_snow_capacity stratum - snow_stored stratum)
             else min snow (specific_snow_capacity stratum - snow_stored stratum))
      in max potential_interception 0)"

section \<open>The data of the routing core\<close>

subsection \<open>Patches\<close>

text \<open>The fields of \<^verbatim>\<open>struct patch_object\<close> that the routers and the driver read or
  write. \<open>soil_ns_nitrate\<close> stands for \<^verbatim>\<open>soil_ns.nitrate\<close>, and likewise the other
  nested fields. \<open>transmissivity_profile\<close> is the array the pointer of that name points
  to, by (signed) offset; only the offsets \<open>0 .. num_soil_intervals\<close> lie inside it.\<close>

record patch_object =
  z :: real
  detention_store :: real
  surface_NO3 :: real
  surface_NH4 :: real
  surface_DOC :: real
  surface_DON :: real
  sat_deficit :: real
  sat_deficit_z :: real
  field_capacity :: real
  soil_ns_nitrate :: real
  soil_ns_sminn :: real
  soil_ns_DON :: real
  soil_cs_DOC :: real
  transmissivity_profile :: "int \<Rightarrow> real"

type_synonym heap = "nat \<Rightarrow> patch_object"

subsection \<open>The mesh index: the time-independent globals\<close>

text \<open>Built once by \<^verbatim>\<open>init_hydro_routing\<close>. \<open>plist\<close> holds the addresses of the patches
  in routing order; the two-dimensional tables have \<^verbatim>\<open>MAXNEIGHBOR\<close> columns.\<close>

record mesh =
  verbose :: int
  num_patches :: nat
  plist :: "nat array"
  psize :: "real array"
  pscale :: "real array"
  nsoil :: "nat array"
  dzsoil :: "real array"
  retdep :: "real array"
  rootzs :: "real array"
  ksatv :: "real array"
  ksat_0 :: "real array"
  mz_v :: "real array"
  por_0 :: "real array"
  por_d :: "real array"
  psiair :: "real array"
  capH2O :: "real array"
  sfcknl :: "real array"
  sfccnti :: "nat array"
  sfcndxi :: "nat array2"
  sfcgam :: "real array2"
  subcnto :: "nat array"
  subcnti :: "nat array"
  subndxo :: "nat array2"
  subndxi :: "nat array2"
  perimf :: "real array2"
  subdist :: "real array2"

subsection \<open>The working columns: the time-dependent globals\<close>

record work =
  waterz :: "real array"
  totH2O :: "real array"
  totNO3 :: "real array"
  totNH4 :: "real array"
  totDON :: "real array"
  totDOC :: "real array"
  sfcH2O :: "real array"
  sfcNO3 :: "real array"
  sfcNH4 :: "real array"
  sfcDOC :: "real array"
  sfcDON :: "real array"
  infH2O :: "real array"
  infNO3 :: "real array"
  infNH4 :: "real array"
  infDOC :: "real array"
  infDON :: "real array"
  latH2O :: "real array"
  latNO3 :: "real array"
  latNH4 :: "real array"
  latDOC :: "real array"
  latDON :: "real array"
  canH2O :: "real array"
  canNO3 :: "real array"
  canNH4 :: "real array"
  canDOC :: "real array"
  canDON :: "real array"

text \<open>Five numbers, one per species: the outflow rates of one patch, or one of its
  pools. The source keeps them in five scalars or five arrays side by side.\<close>

record pools =
  H2O :: real
  NO3 :: real
  NH4 :: real
  DOC :: real
  DON :: real

text \<open>The loop \<^verbatim>\<open>s = a; for (j = 0; j < n; j++) s += f(j);\<close>\<close>

primrec accumulate :: "real \<Rightarrow> (nat \<Rightarrow> real) \<Rightarrow> nat \<Rightarrow> real" where
  "accumulate a f 0 = a"
| "accumulate a f (Suc j) = accumulate a f j + f j"

text \<open>A \<^verbatim>\<open>parallel for\<close> over the patches in which iteration \<open>i\<close> writes entry \<open>i\<close> of
  an array and reads nothing that the loop writes: the entries below \<open>n\<close> are
  replaced, the others keep their contents.\<close>

definition par_for :: "nat \<Rightarrow> (nat \<Rightarrow> 'a) \<Rightarrow> 'a array \<Rightarrow> 'a array" where
  "par_for n f old = (\<lambda>i. if i < n then f i else old i)"

subsection \<open>Doubles that are not numbers\<close>

text \<open>The values that the formulas of \<^verbatim>\<open>sfc_routing\<close> can take: a number, one of the two
  infinities, or NaN. The operations follow IEEE 754 on the infinities and NaN (a quotient
  of two zeros, a difference of equal infinities, a product of a zero and an infinity and
  the root of a negative number are NaN; a comparison with a NaN is false) and are exact
  on numbers, which do not overflow. The zero of the model is the positive zero: a number
  above zero divided by zero is \<open>PInf\<close>.\<close>

datatype dbl = Num real | PInf | NInf | NaN

instantiation dbl :: "{plus, minus, times, inverse, ord}"
begin

fun plus_dbl :: "dbl \<Rightarrow> dbl \<Rightarrow> dbl" where
  "Num a + Num b = Num (a + b)"
| "NaN + y = NaN"
| "x + NaN = NaN"
| "PInf + NInf = NaN"
| "NInf + PInf = NaN"
| "PInf + y = PInf"
| "x + PInf = PInf"
| "NInf + y = NInf"
| "x + NInf = NInf"

fun minus_dbl :: "dbl \<Rightarrow> dbl \<Rightarrow> dbl" where
  "Num a - Num b = Num (a - b)"
| "NaN - y = NaN"
| "x - NaN = NaN"
| "PInf - PInf = NaN"
| "NInf - NInf = NaN"
| "PInf - y = PInf"
| "x - NInf = PInf"
| "NInf - y = NInf"
| "x - PInf = NInf"

fun times_dbl :: "dbl \<Rightarrow> dbl \<Rightarrow> dbl" where
  "Num a * Num b = Num (a * b)"
| "NaN * y = NaN"
| "x * NaN = NaN"
| "PInf * Num b = (if b = 0 then NaN else if 0 < b then PInf else NInf)"
| "NInf * Num b = (if b = 0 then NaN else if 0 < b then NInf else PInf)"
| "Num a * PInf = (if a = 0 then NaN else if 0 < a then PInf else NInf)"
| "Num a * NInf = (if a = 0 then NaN else if 0 < a then NInf else PInf)"
| "PInf * PInf = PInf"
| "PInf * NInf = NInf"
| "NInf * PInf = NInf"
| "NInf * NInf = PInf"

fun divide_dbl :: "dbl \<Rightarrow> dbl \<Rightarrow> dbl" where
  "divide_dbl (Num a) (Num b) =
     (if b \<noteq> 0 then Num (a / b) else if a = 0 then NaN else if 0 < a then PInf else NInf)"
| "divide_dbl NaN y = NaN"
| "divide_dbl x NaN = NaN"
| "divide_dbl (Num a) PInf = Num 0"
| "divide_dbl (Num a) NInf = Num 0"
| "divide_dbl PInf (Num b) = (if 0 \<le> b then PInf else NInf)"
| "divide_dbl NInf (Num b) = (if 0 \<le> b then NInf else PInf)"
| "divide_dbl PInf PInf = NaN"
| "divide_dbl PInf NInf = NaN"
| "divide_dbl NInf PInf = NaN"
| "divide_dbl NInf NInf = NaN"

definition inverse_dbl :: "dbl \<Rightarrow> dbl" where
  "inverse_dbl x = divide (Num 1) x"

fun less_dbl :: "dbl \<Rightarrow> dbl \<Rightarrow> bool" where
  "Num a < Num b \<longleftrightarrow> a < b"
| "NaN < y \<longleftrightarrow> False"
| "x < NaN \<longleftrightarrow> False"
| "x < NInf \<longleftrightarrow> False"
| "PInf < y \<longleftrightarrow> False"
| "NInf < y \<longleftrightarrow> True"
| "x < PInf \<longleftrightarrow> True"

fun less_eq_dbl :: "dbl \<Rightarrow> dbl \<Rightarrow> bool" where
  "Num a \<le> Num b \<longleftrightarrow> a \<le> b"
| "NaN \<le> y \<longleftrightarrow> False"
| "x \<le> NaN \<longleftrightarrow> False"
| "NInf \<le> y \<longleftrightarrow> True"
| "x \<le> PInf \<longleftrightarrow> True"
| "x \<le> NInf \<longleftrightarrow> False"
| "PInf \<le> y \<longleftrightarrow> False"

instance ..

end

text \<open>\<^verbatim>\<open>sqrt\<close> and \<^verbatim>\<open>exp\<close> of \<^verbatim>\<open>math.h\<close>.\<close>

fun dsqrt :: "dbl \<Rightarrow> dbl" where
  "dsqrt (Num a) = (if a < 0 then NaN else Num (sqrt a))"
| "dsqrt PInf = PInf"
| "dsqrt NInf = NaN"
| "dsqrt NaN = NaN"

fun dexp :: "dbl \<Rightarrow> dbl" where
  "dexp (Num a) = Num (exp a)"
| "dexp PInf = PInf"
| "dexp NInf = Num 0"
| "dexp NaN = NaN"

section \<open>\<^verbatim>\<open>sub_routing\<close>: lateral groundwater flow and the coupling step\<close>

subsection \<open>Pass 1: transmissivity\<close>

text \<open>C's \<^verbatim>\<open>lround\<close> (nearest integer, halves away from zero) and the conversion of a
  \<^verbatim>\<open>double\<close> to \<^verbatim>\<open>int\<close> (the fraction is dropped).\<close>

definition lround :: "real \<Rightarrow> int" where
  "lround v = (if 0 \<le> v then \<lfloor>v + 1 / 2\<rfloor> else - \<lfloor>- v + 1 / 2\<rfloor>)"

definition trunc_int :: "real \<Rightarrow> int" where
  "trunc_int v = (if 0 \<le> v then \<lfloor>v\<rfloor> else \<lceil>v\<rceil>)"

text \<open>The subscript \<open>n\<close> of the branch \<^verbatim>\<open>pscale[i] > 0\<close>:
  \<^verbatim>\<open>n = min( (int)nsoil[i], (int) lround( patch->sat_deficit + normal[m]*pscale[i])/dzsoil[i] )\<close>.
  The cast binds tighter than the division: the sum is rounded to an integer first,
  the integer is divided by \<^verbatim>\<open>dzsoil[i]\<close> as a \<^verbatim>\<open>double\<close>, and the smaller of the two
  numbers is converted to \<^verbatim>\<open>int\<close> by the assignment.\<close>

definition trans_index :: "nat \<Rightarrow> real \<Rightarrow> real \<Rightarrow> real \<Rightarrow> nat \<Rightarrow> int" where
  "trans_index ns dz ps sd m =
     trunc_int (min (real ns) (real_of_int (lround (sd + normal ! m * ps)) / dz))"

definition trans_patch :: "patch_object \<Rightarrow> real \<Rightarrow> nat \<Rightarrow> real \<Rightarrow> real" where
  "trans_patch patch ps ns dz =
     (if ps > 0
      then accumulate 0
             (\<lambda>m. transmissivity_profile patch (trans_index ns dz ps (sat_deficit patch) m)
                    * perc ! m) 9
      else transmissivity_profile patch (min (int ns) (lround (sat_deficit patch / dz))))"

definition trans_col :: "mesh \<Rightarrow> heap \<Rightarrow> real array" where
  "trans_col M h i = trans_patch (h (plist M i)) (pscale M i) (nsoil M i) (dzsoil M i)"

subsection \<open>Pass 2: rates along the outflow edges, and the largest velocity\<close>

definition sub_slope :: "mesh \<Rightarrow> work \<Rightarrow> nat \<Rightarrow> nat \<Rightarrow> real" where
  "sub_slope M w i j = (waterz w i - waterz w (subndxo M i j)) / subdist M i j"

definition sub_vel :: "mesh \<Rightarrow> work \<Rightarrow> real array \<Rightarrow> nat \<Rightarrow> nat \<Rightarrow> real" where
  "sub_vel M w tr i j = sub_slope M w i j * tr i / psize M i"

text \<open>\<^verbatim>\<open>gamma[i][j]\<close> and \<^verbatim>\<open>dH2Odt[i][j]\<close> as the edge loop leaves them.\<close>

definition gamma_raw :: "real \<Rightarrow> mesh \<Rightarrow> work \<Rightarrow> nat \<Rightarrow> nat \<Rightarrow> real" where
  "gamma_raw ZERO M w i j = (if sub_slope M w i j > ZERO then sub_slope M w i j else 0)"

definition dH2Odt_edge :: "real \<Rightarrow> mesh \<Rightarrow> work \<Rightarrow> real array \<Rightarrow> nat \<Rightarrow> nat \<Rightarrow> real" where
  "dH2Odt_edge ZERO M w tr i j =
     (if sub_slope M w i j > ZERO
      then perimf M i j * ((1 / 2) * (waterz w i + waterz w (subndxo M i j))) * sub_vel M w tr i j
      else 0)"

definition sub_gsum :: "real \<Rightarrow> mesh \<Rightarrow> work \<Rightarrow> nat \<Rightarrow> real" where
  "sub_gsum ZERO M w i = accumulate 0 (gamma_raw ZERO M w i) (subcnto M i)"

text \<open>\<^verbatim>\<open>outH2O[i] = wsum\<close>\<close>

definition sub_outH2O :: "real \<Rightarrow> mesh \<Rightarrow> work \<Rightarrow> real array \<Rightarrow> nat \<Rightarrow> real" where
  "sub_outH2O ZERO M w tr i = accumulate 0 (dH2Odt_edge ZERO M w tr i) (subcnto M i)"

text \<open>\<^verbatim>\<open>gamma[i][j]\<close> after the normalisation that follows the edge loop.\<close>

definition sub_gamma :: "real \<Rightarrow> mesh \<Rightarrow> work \<Rightarrow> nat \<Rightarrow> nat \<Rightarrow> real" where
  "sub_gamma ZERO M w i j =
     (if sub_gsum ZERO M w i > ZERO
      then (1 / sub_gsum ZERO M w i) * gamma_raw ZERO M w i j
      else gamma_raw ZERO M w i j)"

text \<open>The reduction \<^verbatim>\<open>max: cmax\<close>: over the edges of one patch, then over the patches.\<close>

primrec cmax_edges :: "real \<Rightarrow> mesh \<Rightarrow> work \<Rightarrow> real array \<Rightarrow> nat \<Rightarrow> nat \<Rightarrow> real \<Rightarrow> real" where
  "cmax_edges ZERO M w tr i 0 c = c"
| "cmax_edges ZERO M w tr i (Suc j) c =
     (let c' = cmax_edges ZERO M w tr i j c
      in if sub_slope M w i j > ZERO \<and> sub_vel M w tr i j > c' then sub_vel M w tr i j else c')"

primrec cmax_patches :: "real \<Rightarrow> mesh \<Rightarrow> work \<Rightarrow> real array \<Rightarrow> nat \<Rightarrow> real \<Rightarrow> real" where
  "cmax_patches ZERO M w tr 0 c = c"
| "cmax_patches ZERO M w tr (Suc i) c =
     cmax_edges ZERO M w tr i (subcnto M i) (cmax_patches ZERO M w tr i c)"

definition sub_cmax :: "real \<Rightarrow> mesh \<Rightarrow> heap \<Rightarrow> work \<Rightarrow> real \<Rightarrow> real" where
  "sub_cmax ZERO M h w tstep =
     cmax_patches ZERO M w (trans_col M h) (num_patches M) (COUMAX / min tstep CPLMAX)"

text \<open>\<^verbatim>\<open>*substep = dt = min( COUMAX / cmax , tstep )\<close>\<close>

definition sub_dt :: "real \<Rightarrow> mesh \<Rightarrow> heap \<Rightarrow> work \<Rightarrow> real \<Rightarrow> real" where
  "sub_dt ZERO M h w tstep = min (COUMAX / sub_cmax ZERO M h w tstep) tstep"

subsection \<open>Passes 3 and 4: fractions leaving, and the lateral deltas\<close>

text \<open>\<^verbatim>\<open>dH2Odt\<close> and \<^verbatim>\<open>rtefac\<close> are arrays on the stack of \<^verbatim>\<open>sub_routing\<close>. Pass 2 and
  pass 3 write the entries \<open>[i][j]\<close> with \<open>i < num_patches\<close> and \<open>j < subcnto[i]\<close> and no
  others; every other entry holds what the stack held on entry.\<close>

record sub_stack =
  dH2Odt0 :: "real array2"
  rtefac0 :: "real array2"

definition sub_outfac :: "real \<Rightarrow> mesh \<Rightarrow> work \<Rightarrow> real array \<Rightarrow> real \<Rightarrow> nat \<Rightarrow> real" where
  "sub_outfac ZERO M w tr dt i = (dt / totH2O w i) * sub_outH2O ZERO M w tr i"

definition dH2Odt :: "real \<Rightarrow> mesh \<Rightarrow> work \<Rightarrow> real array \<Rightarrow> sub_stack \<Rightarrow> real array2" where
  "dH2Odt ZERO M w tr st k j =
     (if k < num_patches M \<and> j < subcnto M k then dH2Odt_edge ZERO M w tr k j
      else dH2Odt0 st k j)"

definition rtefac :: "real \<Rightarrow> mesh \<Rightarrow> work \<Rightarrow> real array \<Rightarrow> sub_stack \<Rightarrow> real \<Rightarrow> real array2" where
  "rtefac ZERO M w tr st dt k j =
     (if k < num_patches M \<and> j < subcnto M k
      then (dt / totH2O w k) * sub_gamma ZERO M w k j * dH2Odt_edge ZERO M w tr k j
      else rtefac0 st k j)"

text \<open>Pass 4 for patch \<open>i\<close>: the five deltas. The inflow loop runs over the slots
  \<open>j < subcnti[i]\<close>, takes the source \<open>k = subndxi[i][j]\<close> and reads
  \<^verbatim>\<open>dH2Odt[k][j]\<close> and \<^verbatim>\<open>rtefac[k][j]\<close>; the solutes are multiplied by the
  receiver's own column pools.\<close>

definition sub_lat :: "real \<Rightarrow> mesh \<Rightarrow> work \<Rightarrow> real array \<Rightarrow> sub_stack \<Rightarrow> real \<Rightarrow> nat \<Rightarrow> pools" where
  "sub_lat ZERO M w tr st dt i =
     \<lparr>H2O = accumulate (- sub_outH2O ZERO M w tr i * dt)
              (\<lambda>j. dH2Odt ZERO M w tr st (subndxi M i j) j * dt) (subcnti M i),
      NO3 = accumulate (- sub_outfac ZERO M w tr dt i * totNO3 w i)
              (\<lambda>j. rtefac ZERO M w tr st dt (subndxi M i j) j * totNO3 w i) (subcnti M i),
      NH4 = accumulate (- sub_outfac ZERO M w tr dt i * totNH4 w i)
              (\<lambda>j. rtefac ZERO M w tr st dt (subndxi M i j) j * totNH4 w i) (subcnti M i),
      DOC = accumulate (- sub_outfac ZERO M w tr dt i * totDOC w i)
              (\<lambda>j. rtefac ZERO M w tr st dt (subndxi M i j) j * totDOC w i) (subcnti M i),
      DON = accumulate (- sub_outfac ZERO M w tr dt i * totDON w i)
              (\<lambda>j. rtefac ZERO M w tr st dt (subndxi M i j) j * totDON w i) (subcnti M i)\<rparr>"

text \<open>The whole routine: the coupling step written through \<^verbatim>\<open>substep\<close>, and the
  working columns with the five \<^verbatim>\<open>lat\<close> arrays overwritten.\<close>

definition sub_routing :: "real \<Rightarrow> mesh \<Rightarrow> heap \<Rightarrow> sub_stack \<Rightarrow> real \<Rightarrow> work \<Rightarrow> real \<times> work" where
  "sub_routing ZERO M h st tstep w =
     (let tr = trans_col M h;
          dt = sub_dt ZERO M h w tstep;
          lat = sub_lat ZERO M w tr st dt;
          n = num_patches M
      in (dt, w\<lparr>latH2O := par_for n (\<lambda>i. H2O (lat i)) (latH2O w),
                latNO3 := par_for n (\<lambda>i. NO3 (lat i)) (latNO3 w),
                latNH4 := par_for n (\<lambda>i. NH4 (lat i)) (latNH4 w),
                latDON := par_for n (\<lambda>i. DON (lat i)) (latDON w),
                latDOC := par_for n (\<lambda>i. DOC (lat i)) (latDOC w)\<rparr>))"

section \<open>\<^verbatim>\<open>can_routing\<close> and \<^verbatim>\<open>stream_routing\<close>\<close>

text \<open>The canopy router zero-fills its five rate columns; the stream router has an
  empty body.\<close>

definition can_routing :: "mesh \<Rightarrow> real \<Rightarrow> work \<Rightarrow> work" where
  "can_routing M tstep w =
     (let n = num_patches M
      in w\<lparr>canH2O := par_for n (\<lambda>i. 0) (canH2O w),
           canNO3 := par_for n (\<lambda>i. 0) (canNO3 w),
           canNH4 := par_for n (\<lambda>i. 0) (canNH4 w),
           canDOC := par_for n (\<lambda>i. 0) (canDOC w),
           canDON := par_for n (\<lambda>i. 0) (canDON w)\<rparr>)"

definition stream_routing :: "real \<Rightarrow> work \<Rightarrow> work" where
  "stream_routing tstep w = w"

section \<open>\<^verbatim>\<open>sfc_routing\<close>: overland flow and infiltration\<close>

subsection \<open>The drainage rates and the largest velocity\<close>

text \<open>The rates of patch \<open>i\<close>. Where \<open>hh > 0\<close> on a patch without surface water (its
  detention depth is negative then), \<^verbatim>\<open>div = hh / sfcH2O[i]\<close> is infinite and each of the
  four solute rates is an infinity or a NaN: the result is \<open>None\<close>.\<close>

definition sfc_rate :: "mesh \<Rightarrow> work \<Rightarrow> nat \<Rightarrow> pools option" where
  "sfc_rate M w i =
     (let hh = sfcH2O w i - retdep M i
      in if hh > 0
         then (if sfcH2O w i = 0 then None
               else (let vel = sfcknl M i * hh powr TWOTHD;
                         dv = hh / sfcH2O w i
                     in Some \<lparr>H2O = vel * hh,
                              NO3 = vel * dv * sfcNO3 w i,
                              NH4 = vel * dv * sfcNH4 w i,
                              DOC = vel * dv * sfcDOC w i,
                              DON = vel * dv * sfcDON w i\<rparr>))
         else Some \<lparr>H2O = 0, NO3 = 0, NH4 = 0, DOC = 0, DON = 0\<rparr>)"

text \<open>The five arrays \<^verbatim>\<open>outH2O .. outDON\<close> live on the stack and have \<open>num_patches\<close>
  entries, all written by the rate loop; \<open>beyond\<close> is what the memory holds behind them.
  The arrays are \<open>None\<close> when a rate of some patch is not a number.\<close>

definition sfc_out :: "mesh \<Rightarrow> work \<Rightarrow> pools array \<Rightarrow> pools array option" where
  "sfc_out M w beyond =
     map_option (\<lambda>rates k. if k < num_patches M then rates ! k else beyond k)
       (those (map (sfc_rate M w) [0..<num_patches M]))"

primrec sfc_cmax_loop :: "mesh \<Rightarrow> work \<Rightarrow> nat \<Rightarrow> real \<Rightarrow> real" where
  "sfc_cmax_loop M w 0 c = c"
| "sfc_cmax_loop M w (Suc i) c =
     (let c' = sfc_cmax_loop M w i c;
          hh = sfcH2O w i - retdep M i;
          vel = sfcknl M i * hh powr TWOTHD
      in if hh > 0 \<and> vel > c' then vel else c')"

definition sfc_cmax :: "mesh \<Rightarrow> work \<Rightarrow> real \<Rightarrow> real" where
  "sfc_cmax M w tstep = sfc_cmax_loop M w (num_patches M) (COUMAX / tstep)"

text \<open>\<^verbatim>\<open>dt = min( COUMAX / cmax , tstep - t )\<close>\<close>

definition sfc_dt :: "mesh \<Rightarrow> work \<Rightarrow> real \<Rightarrow> real \<Rightarrow> real" where
  "sfc_dt M w tstep t = min (COUMAX / sfc_cmax M w tstep) (tstep - t)"

subsection \<open>The update of one patch\<close>

text \<open>The net inflow rates \<^verbatim>\<open>sumH2O .. sumDON\<close> of patch \<open>i\<close>: minus its own outflow,
  plus the weighted outflow of the sources in its inflow list, plus the canopy rates.\<close>

definition sfc_sum :: "mesh \<Rightarrow> work \<Rightarrow> pools array \<Rightarrow> nat \<Rightarrow> pools" where
  "sfc_sum M w out i =
     \<lparr>H2O = accumulate (- H2O (out i))
              (\<lambda>j. sfcgam M i j * H2O (out (sfcndxi M i j))) (sfccnti M i) + canH2O w i,
      NO3 = accumulate (- NO3 (out i))
              (\<lambda>j. sfcgam M i j * NO3 (out (sfcndxi M i j))) (sfccnti M i) + canNO3 w i,
      NH4 = accumulate (- NH4 (out i))
              (\<lambda>j. sfcgam M i j * NH4 (out (sfcndxi M i j))) (sfccnti M i) + canNH4 w i,
      DOC = accumulate (- DOC (out i))
              (\<lambda>j. sfcgam M i j * DOC (out (sfcndxi M i j))) (sfccnti M i) + canDOC w i,
      DON = accumulate (- DON (out i))
              (\<lambda>j. sfcgam M i j * DON (out (sfcndxi M i j))) (sfccnti M i) + canDON w i\<rparr>"

text \<open>The amount \<^verbatim>\<open>delta\<close> that infiltrates in patch \<open>i\<close> during \<open>dt\<close>, from the surface
  water \<open>s\<close> (the value of \<^verbatim>\<open>sfcH2O[i]\<close> after the inflows were applied) and the
  depth \<open>zd = plist[i]->sat_deficit_z\<close>. The formulas divide by \<open>zd\<close> and take roots of
  products that can be negative, and the tests that follow compare the results: with a
  NaN on either side \<^verbatim>\<open>intensity > ksat\<close>, \<^verbatim>\<open>dt <= tp\<close> and \<^verbatim>\<open>delta < sfcH2O[i]\<close> are
  false. The products and quotients associate to the left, as in C.\<close>

definition infil_delta :: "real \<Rightarrow> mesh \<Rightarrow> real \<Rightarrow> nat \<Rightarrow> real \<Rightarrow> real \<Rightarrow> dbl" where
  "infil_delta ZERO M zd i dt s =
     (let ksat = (if mz_v M i > ZERO
                  then Num (mz_v M i) * Num (ksat_0 M i)
                         * (Num 1 - dexp (Num (- zd) / Num (mz_v M i))) / Num zd
                  else Num (ksat_0 M i));
          poro = (if por_d M i < 9999 / 10
                  then Num (por_d M i) * Num (por_0 M i)
                         * (Num 1 - dexp (Num (- zd) / Num (por_d M i))) / Num zd
                  else Num (por_0 M i));
          theta = Num (rootzs M i) * poro;
          psi_f = Num (76 / 100) * Num (psiair M i);
          Sp = dsqrt (Num 2 * ksat * psi_f);
          intensity = Num s / Num dt;
          tp = (if ksat < intensity
                then ksat * psi_f * (poro - theta) / (intensity * (intensity - ksat))
                else Num dt)
      in if Num dt \<le> tp then Num (ksatv M i) * Num s
         else (let afac = dsqrt ksat;
                   afac3 = afac * afac * afac / Num 3;
                   delta = Sp * dsqrt (Num dt - tp) + afac3 + tp * Num s
               in Num (ksatv M i) * (if delta < Num s then delta else Num s)))"

text \<open>The transfer of \<open>delta\<close> from the surface pools to the infiltration pools:
  \<^verbatim>\<open>afac = delta / sfcH2O[i]\<close> is taken before the water is removed. On a patch without
  surface water \<open>afac\<close> is a NaN or an infinity, and so is every solute pool of the patch
  after the statements; with an infinite \<open>delta\<close> the water pools are infinite as well. The
  result is \<open>None\<close> then.\<close>

definition infil_transfer :: "dbl \<Rightarrow> pools \<times> pools \<Rightarrow> (pools \<times> pools) option" where
  "infil_transfer delta sp =
     (let sfc = fst sp; infl = snd sp
      in case (delta, delta / Num (H2O sfc)) of
           (Num d, Num afac) \<Rightarrow>
             Some (\<lparr>H2O = H2O sfc - d,
                    NO3 = NO3 sfc - afac * NO3 sfc,
                    NH4 = NH4 sfc - afac * NH4 sfc,
                    DOC = DOC sfc - afac * DOC sfc,
                    DON = DON sfc - afac * DON sfc\<rparr>,
                   \<lparr>H2O = H2O infl + d,
                    NO3 = NO3 infl + afac * NO3 sfc,
                    NH4 = NH4 infl + afac * NH4 sfc,
                    DOC = DOC infl + afac * DOC sfc,
                    DON = DON infl + afac * DON sfc\<rparr>)
         | _ \<Rightarrow> None)"

text \<open>The surface pools of patch \<open>i\<close> after the net inflow of \<open>dt\<close> was applied.\<close>

definition sfc_advect :: "mesh \<Rightarrow> work \<Rightarrow> pools array \<Rightarrow> real \<Rightarrow> nat \<Rightarrow> pools" where
  "sfc_advect M w out dt i =
     (let s = sfc_sum M w out i
      in \<lparr>H2O = sfcH2O w i + H2O s * dt,
          NO3 = sfcNO3 w i + NO3 s * dt,
          NH4 = sfcNH4 w i + NH4 s * dt,
          DOC = sfcDOC w i + DOC s * dt,
          DON = sfcDON w i + DON s * dt\<rparr>)"

definition inf_pools :: "work \<Rightarrow> nat \<Rightarrow> pools" where
  "inf_pools w i =
     \<lparr>H2O = infH2O w i, NO3 = infNO3 w i, NH4 = infNH4 w i, DOC = infDOC w i, DON = infDON w i\<rparr>"

text \<open>One iteration of the update-and-infiltration loop: the new surface pools and the
  new infiltration pools of patch \<open>i\<close>, or \<open>None\<close> when they are not numbers.\<close>

definition sfc_update ::
  "real \<Rightarrow> mesh \<Rightarrow> heap \<Rightarrow> work \<Rightarrow> pools array \<Rightarrow> real \<Rightarrow> nat \<Rightarrow> (pools \<times> pools) option" where
  "sfc_update ZERO M h w out dt i =
     (let sfc1 = sfc_advect M w out dt i
      in if rootzs M i < 1 \<and> ksat_0 M i > ZERO
         then infil_transfer
                (infil_delta ZERO M (sat_deficit_z (h (plist M i))) i dt (H2O sfc1))
                (sfc1, inf_pools w i)
         else Some (sfc1, inf_pools w i))"

subsection \<open>The internal time loop\<close>

text \<open>One internal step at time \<open>t\<close>: the step \<open>dt\<close> and the columns after it. The columns
  hold numbers; they are \<open>None\<close> when the step leaves an infinity or a NaN in a pool of
  some patch (the program goes on with it).\<close>

definition sfc_step ::
  "real \<Rightarrow> mesh \<Rightarrow> heap \<Rightarrow> pools array \<Rightarrow> real \<Rightarrow> real \<Rightarrow> work \<Rightarrow> real \<times> work option" where
  "sfc_step ZERO M h beyond tstep t w =
     (let dt = sfc_dt M w tstep t;
          n = num_patches M
      in (dt,
          case sfc_out M w beyond of
            None \<Rightarrow> None
          | Some out \<Rightarrow>
              (case those (map (sfc_update ZERO M h w out dt) [0..<n]) of
                 None \<Rightarrow> None
               | Some upd \<Rightarrow>
                   Some (w\<lparr>sfcH2O := par_for n (\<lambda>i. H2O (fst (upd ! i))) (sfcH2O w),
                           sfcNO3 := par_for n (\<lambda>i. NO3 (fst (upd ! i))) (sfcNO3 w),
                           sfcNH4 := par_for n (\<lambda>i. NH4 (fst (upd ! i))) (sfcNH4 w),
                           sfcDOC := par_for n (\<lambda>i. DOC (fst (upd ! i))) (sfcDOC w),
                           sfcDON := par_for n (\<lambda>i. DON (fst (upd ! i))) (sfcDON w),
                           infH2O := par_for n (\<lambda>i. H2O (snd (upd ! i))) (infH2O w),
                           infNO3 := par_for n (\<lambda>i. NO3 (snd (upd ! i))) (infNO3 w),
                           infNH4 := par_for n (\<lambda>i. NH4 (snd (upd ! i))) (infNH4 w),
                           infDOC := par_for n (\<lambda>i. DOC (snd (upd ! i))) (infDOC w),
                           infDON := par_for n (\<lambda>i. DON (snd (upd ! i))) (infDON w)\<rparr>))))"

text \<open>\<^verbatim>\<open>for ( t = 0.0 ; t < tfinal ; t+=dt )\<close> with \<^verbatim>\<open>tfinal = tstep - EPSILON\<close>. Nothing
  bounds the number of iterations beforehand, so the loop carries fuel: \<open>OutOfFuel\<close>
  means that the loop was still running when the fuel ran out, \<open>NotFinite\<close> that a step
  left an infinity or a NaN in the columns.\<close>

datatype stop = OutOfFuel | NotFinite

fun sfc_loop ::
  "nat \<Rightarrow> real \<Rightarrow> mesh \<Rightarrow> heap \<Rightarrow> pools array \<Rightarrow> real \<Rightarrow> real \<Rightarrow> work \<Rightarrow> stop + work" where
  "sfc_loop 0 ZERO M h beyond tstep t w =
     (if t < tstep - EPSILON then Inl OutOfFuel else Inr w)"
| "sfc_loop (Suc fuel) ZERO M h beyond tstep t w =
     (if t < tstep - EPSILON
      then (let r = sfc_step ZERO M h beyond tstep t w
            in case snd r of
                 None \<Rightarrow> Inl NotFinite
               | Some w1 \<Rightarrow> sfc_loop fuel ZERO M h beyond tstep (t + fst r) w1)
      else Inr w)"

definition sfc_routing ::
  "nat \<Rightarrow> real \<Rightarrow> mesh \<Rightarrow> heap \<Rightarrow> pools array \<Rightarrow> real \<Rightarrow> work \<Rightarrow> stop + work" where
  "sfc_routing fuel ZERO M h beyond tstep w =
     (let n = num_patches M
      in sfc_loop fuel ZERO M h beyond tstep 0
           (w\<lparr>infH2O := par_for n (\<lambda>i. 0) (infH2O w),
              infNO3 := par_for n (\<lambda>i. 0) (infNO3 w),
              infNH4 := par_for n (\<lambda>i. 0) (infNH4 w),
              infDOC := par_for n (\<lambda>i. 0) (infDOC w),
              infDON := par_for n (\<lambda>i. 0) (infDON w)\<rparr>))"

section \<open>\<^verbatim>\<open>sub_vertical\<close>: the balance of the soil column\<close>

text \<open>The column pools of patch \<open>i\<close> after \<^verbatim>\<open>tot = tot + inf + lat\<close>.\<close>

definition tot_added :: "work \<Rightarrow> nat \<Rightarrow> pools" where
  "tot_added w i =
     \<lparr>H2O = totH2O w i + infH2O w i + latH2O w i,
      NO3 = totNO3 w i + infNO3 w i + latNO3 w i,
      NH4 = totNH4 w i + infNH4 w i + latNH4 w i,
      DOC = totDOC w i + infDOC w i + latDOC w i,
      DON = totDON w i + infDON w i + latDON w i\<rparr>"

text \<open>\<^verbatim>\<open>fac\<close>, the excess-water fraction, where the column holds more than its capacity.\<close>

definition excess_fac :: "mesh \<Rightarrow> work \<Rightarrow> nat \<Rightarrow> real" where
  "excess_fac M w i = (H2O (tot_added w i) - capH2O M i) / H2O (tot_added w i)"

text \<open>\<^verbatim>\<open>compute_z_final\<close> is declared in the file and defined elsewhere: it is the
  parameter \<open>zfinal\<close>, with the arguments of the declaration.\<close>

type_synonym z_final = "int \<Rightarrow> real \<Rightarrow> real \<Rightarrow> real \<Rightarrow> real \<Rightarrow> real \<Rightarrow> real"

definition sub_vertical :: "z_final \<Rightarrow> mesh \<Rightarrow> heap \<Rightarrow> real \<Rightarrow> work \<Rightarrow> work" where
  "sub_vertical zfinal M h tstep w =
     (let n = num_patches M;
          tot = tot_added w;
          over = (\<lambda>i. H2O (tot i) > capH2O M i);
          fac = excess_fac M w
      in w\<lparr>totH2O := par_for n (\<lambda>i. if over i then H2O (tot i) - fac i * H2O (tot i) else H2O (tot i)) (totH2O w),
           totNO3 := par_for n (\<lambda>i. if over i then NO3 (tot i) - fac i * NO3 (tot i) else NO3 (tot i)) (totNO3 w),
           totNH4 := par_for n (\<lambda>i. if over i then NH4 (tot i) - fac i * NH4 (tot i) else NH4 (tot i)) (totNH4 w),
           totDON := par_for n (\<lambda>i. if over i then DON (tot i) - fac i * DON (tot i) else DON (tot i)) (totDON w),
           totDOC := par_for n (\<lambda>i. if over i then DOC (tot i) - fac i * DOC (tot i) else DOC (tot i)) (totDOC w),
           sfcH2O := par_for n (\<lambda>i. if over i then sfcH2O w i + fac i * H2O (tot i) else sfcH2O w i) (sfcH2O w),
           sfcNO3 := par_for n (\<lambda>i. if over i then sfcNO3 w i + fac i * NO3 (tot i) else sfcNO3 w i) (sfcNO3 w),
           sfcNH4 := par_for n (\<lambda>i. if over i then sfcNH4 w i + fac i * NH4 (tot i) else sfcNH4 w i) (sfcNH4 w),
           sfcDON := par_for n (\<lambda>i. if over i then sfcDON w i + fac i * DON (tot i) else sfcDON w i) (sfcDON w),
           sfcDOC := par_for n (\<lambda>i. if over i then sfcDOC w i + fac i * DOC (tot i) else sfcDOC w i) (sfcDOC w),
           waterz := par_for n
             (\<lambda>i. if over i then z (h (plist M i))
                  else z (h (plist M i))
                       - zfinal (verbose M) (por_0 M i) (por_d M i) (dzsoil M i) 0
                           (H2O (tot i) - capH2O M i))
             (waterz w)\<rparr>)"

section \<open>\<^verbatim>\<open>hydro_routing\<close>: the driver\<close>

text \<open>The copy of the patch state into the working columns.\<close>

definition copy_in :: "real \<Rightarrow> mesh \<Rightarrow> heap \<Rightarrow> work \<Rightarrow> work" where
  "copy_in ZERO M h w =
     (let n = num_patches M; patch = (\<lambda>i. h (plist M i))
      in w\<lparr>sfcH2O := par_for n (\<lambda>i. detention_store (patch i)) (sfcH2O w),
           sfcNO3 := par_for n (\<lambda>i. surface_NO3 (patch i)) (sfcNO3 w),
           sfcNH4 := par_for n (\<lambda>i. surface_NH4 (patch i)) (sfcNH4 w),
           sfcDOC := par_for n (\<lambda>i. surface_DOC (patch i)) (sfcDOC w),
           sfcDON := par_for n (\<lambda>i. surface_DON (patch i)) (sfcDON w),
           waterz := par_for n
             (\<lambda>i. z (patch i)
                  - (if sat_deficit_z (patch i) > ZERO then sat_deficit_z (patch i) else ZERO))
             (waterz w),
           totH2O := par_for n (\<lambda>i. field_capacity (patch i) - sat_deficit (patch i)) (totH2O w),
           totNO3 := par_for n (\<lambda>i. soil_ns_nitrate (patch i)) (totNO3 w),
           totNH4 := par_for n (\<lambda>i. soil_ns_sminn (patch i)) (totNH4 w),
           totDON := par_for n (\<lambda>i. soil_ns_DON (patch i)) (totDON w),
           totDOC := par_for n (\<lambda>i. soil_cs_DOC (patch i)) (totDOC w)\<rparr>)"

text \<open>The copy back: iteration \<open>i\<close> writes the patch at address \<open>plist[i]\<close>. The loop is
  taken in index order (a route list that names one patch twice would make the
  parallel loop of the source race).\<close>

definition store_patch :: "work \<Rightarrow> nat \<Rightarrow> patch_object \<Rightarrow> patch_object" where
  "store_patch w i patch =
     patch\<lparr>detention_store := sfcH2O w i,
           surface_NO3 := sfcNO3 w i,
           surface_NH4 := sfcNH4 w i,
           surface_DOC := sfcDOC w i,
           surface_DON := sfcDON w i,
           sat_deficit_z := z patch - waterz w i,
           sat_deficit := field_capacity patch - totH2O w i,
           soil_ns_nitrate := totNO3 w i,
           soil_ns_sminn := totNH4 w i,
           soil_ns_DON := totDON w i,
           soil_cs_DOC := totDOC w i\<rparr>"

primrec copy_back :: "mesh \<Rightarrow> work \<Rightarrow> nat \<Rightarrow> heap \<Rightarrow> heap" where
  "copy_back M w 0 h = h"
| "copy_back M w (Suc i) h =
     (let h' = copy_back M w i h
      in h'(plist M i := store_patch w i (h' (plist M i))))"

text \<open>\<^verbatim>\<open>for( t = extstep; t > EPSILON; t-=substep )\<close>. The body is a parameter: it
  returns the substep that \<^verbatim>\<open>sub_routing\<close> wrote and the state after the five
  components, or \<open>None\<close> when a component did not return columns of numbers. The loop
  carries fuel, and it records the substeps it took.\<close>

fun coupling_loop ::
  "(real \<Rightarrow> 'w \<Rightarrow> (real \<times> 'w) option) \<Rightarrow> nat \<Rightarrow> real \<Rightarrow> 'w \<Rightarrow> (real list \<times> 'w) option" where
  "coupling_loop body 0 t w = (if t > EPSILON then None else Some ([], w))"
| "coupling_loop body (Suc fuel) t w =
     (if t > EPSILON
      then (case body t w of
              None \<Rightarrow> None
            | Some r \<Rightarrow>
                (case coupling_loop body fuel (t - fst r) (snd r) of
                   None \<Rightarrow> None
                 | Some q \<Rightarrow> Some (fst r # fst q, snd q)))
      else Some ([], w))"

text \<open>The body of the loop in \<^verbatim>\<open>hydro_routing\<close>.\<close>

definition coupling_body ::
  "nat \<Rightarrow> real \<Rightarrow> z_final \<Rightarrow> mesh \<Rightarrow> heap \<Rightarrow> sub_stack \<Rightarrow> pools array
     \<Rightarrow> real \<Rightarrow> work \<Rightarrow> (real \<times> work) option" where
  "coupling_body fuel ZERO zfinal M h st beyond t w =
     (let r = sub_routing ZERO M h st t w;
          substep = fst r;
          w2 = can_routing M substep (snd r)
      in case sfc_routing fuel ZERO M h beyond substep w2 of
           Inl e \<Rightarrow> None
         | Inr w3 \<Rightarrow> Some (substep, sub_vertical zfinal M h substep (stream_routing substep w3)))"

text \<open>The driver, for a mesh index that \<^verbatim>\<open>init_hydro_routing\<close> has built (on the first
  call) and that persists: the patches and the working columns after the call.\<close>

definition hydro_routing ::
  "nat \<Rightarrow> real \<Rightarrow> z_final \<Rightarrow> mesh \<Rightarrow> sub_stack \<Rightarrow> pools array \<Rightarrow> real
     \<Rightarrow> heap \<times> work \<Rightarrow> (heap \<times> work) option" where
  "hydro_routing fuel ZERO zfinal M st beyond extstep hw =
     (let h = fst hw;
          w0 = copy_in ZERO M h (snd hw)
      in case coupling_loop (coupling_body fuel ZERO zfinal M h st beyond) fuel extstep w0 of
           None \<Rightarrow> None
         | Some q \<Rightarrow> Some (copy_back M (snd q) (num_patches M) h, snd q))"

section \<open>\<^verbatim>\<open>init_hydro_routing\<close>: the serial loop that builds the inflow tables\<close>

text \<open>\<^verbatim>\<open>patchdex\<close>: the first subscript at which \<open>plist\<close> holds the pointer, or
  \<open>num_patches + 1\<close>. \<open>plist_search M patch n\<close> is what the loop has returned after its
  first \<open>n\<close> iterations, if it has returned.\<close>

primrec plist_search :: "mesh \<Rightarrow> nat \<Rightarrow> nat \<Rightarrow> nat option" where
  "plist_search M patch 0 = None"
| "plist_search M patch (Suc n) =
     (case plist_search M patch n of
        Some i \<Rightarrow> Some i
      | None \<Rightarrow> if patch = plist M n then Some n else None)"

definition patchdex :: "mesh \<Rightarrow> nat \<Rightarrow> nat" where
  "patchdex M patch =
     (case plist_search M patch (num_patches M) of
        Some i \<Rightarrow> i
      | None \<Rightarrow> num_patches M + 1)"

text \<open>The loop ends the process with \<^verbatim>\<open>exit(EXIT_FAILURE)\<close> on a full inflow list. A
  subscript \<open>num_patches + 1\<close> coming from \<^verbatim>\<open>patchdex\<close> would index the tables beyond
  their end; the model stops there with \<open>OutOfRange\<close>.\<close>

datatype failure = MeshOverflow | OutOfRange

text \<open>The surface part for patch \<open>i\<close>. The inputs of the first (parallel) loop are
  \<open>dcount\<close>, \<open>dfrac\<close> (an array on the stack of \<^verbatim>\<open>init_hydro_routing\<close>) and \<open>nbr i j\<close>,
  the pointer \<^verbatim>\<open>plist[i]->surface_innundation_list->neighbours[j].patch\<close>.
  The body of \<^verbatim>\<open>for ( j = 0; j < dcount[i]; j++ )\<close> leaves the loop in both arms of its
  test, by \<^verbatim>\<open>break\<close> after the entry was written or by \<^verbatim>\<open>exit\<close>: it runs for \<open>j = 0\<close>
  only. It stores \<^verbatim>\<open>sfcndxi[k][m] = j\<close> and \<^verbatim>\<open>sfcgam[k][m] = dfrac[k][j]\<close>.\<close>

definition sfc_invert :: "nat array \<Rightarrow> real array2 \<Rightarrow> nat array2 \<Rightarrow> nat \<Rightarrow> mesh \<Rightarrow> failure + mesh" where
  "sfc_invert dcount dfrac nbr i M =
     (let j = 0 in
      if j < dcount i
      then (let k = patchdex M (nbr i j)
            in if num_patches M \<le> k then Inl OutOfRange
               else if sfccnti M k < MAXNEIGHBOR - 1
               then (let m = sfccnti M k
                     in Inr (M\<lparr>sfccnti := (sfccnti M)(k := sfccnti M k + 1),
                               sfcndxi := (sfcndxi M)(k := (sfcndxi M k)(m := j)),
                               sfcgam := (sfcgam M)(k := (sfcgam M k)(m := dfrac k j))\<rparr>))
               else Inl MeshOverflow)
      else Inr M)"

text \<open>The subsurface part for patch \<open>i\<close>, over its first \<open>c\<close> outflow edges:
  \<^verbatim>\<open>subndxi[k][j] = i ; subcnti[k]++\<close>, where \<open>j\<close> is the subscript of the edge in the
  outflow list of \<open>i\<close> (the variable \<open>m\<close> that the source computes is not used).\<close>

primrec sub_invert :: "nat \<Rightarrow> nat \<Rightarrow> mesh \<Rightarrow> failure + mesh" where
  "sub_invert i 0 M = Inr M"
| "sub_invert i (Suc j) M =
     (case sub_invert i j M of
        Inl e \<Rightarrow> Inl e
      | Inr M' \<Rightarrow>
          (if num_patches M' \<le> subndxo M' i j then Inl OutOfRange
           else (let k = patchdex M' (plist M' (subndxo M' i j))
                 in Inr (M'\<lparr>subndxi := (subndxi M')(k := (subndxi M' k)(j := i)),
                            subcnti := (subcnti M')(k := subcnti M' k + 1)\<rparr>))))"

text \<open>The serial loop over the first \<open>c\<close> patches.\<close>

primrec init_serial :: "nat array \<Rightarrow> real array2 \<Rightarrow> nat array2 \<Rightarrow> nat \<Rightarrow> mesh \<Rightarrow> failure + mesh" where
  "init_serial dcount dfrac nbr 0 M = Inr M"
| "init_serial dcount dfrac nbr (Suc i) M =
     (case init_serial dcount dfrac nbr i M of
        Inl e \<Rightarrow> Inl e
      | Inr M1 \<Rightarrow>
          (case sfc_invert dcount dfrac nbr i M1 of
             Inl e \<Rightarrow> Inl e
           | Inr M2 \<Rightarrow> sub_invert i (subcnto M2 i) M2))"

section \<open>Quantities the statements speak about\<close>










text \<open>What the copy into the working columns followed by the copy back does to a patch:
  a \<open>sat_deficit_z\<close> that is not above \<^verbatim>\<open>ZERO\<close> becomes \<^verbatim>\<open>ZERO\<close>.\<close>

definition settle :: "real \<Rightarrow> patch_object \<Rightarrow> patch_object" where
  "settle ZERO patch =
     patch\<lparr>sat_deficit_z := (if sat_deficit_z patch > ZERO then sat_deficit_z patch else ZERO)\<rparr>"

section \<open>The wording of the specification, for comparison with the code\<close>

text \<open>The transmissivity of a patch as the specification words it: the quotient by
  \<open>dzsoil\<close> is taken first and rounded then, in both branches.\<close>

definition trans_claimed :: "patch_object \<Rightarrow> real \<Rightarrow> nat \<Rightarrow> real \<Rightarrow> real" where
  "trans_claimed patch ps ns dz =
     (if ps > 0
      then accumulate 0
             (\<lambda>m. transmissivity_profile patch
                     (min (int ns) (lround ((sat_deficit patch + normal ! m * ps) / dz)))
                    * perc ! m) 9
      else transmissivity_profile patch (min (int ns) (lround (sat_deficit patch / dz))))"

text \<open>The inflow list of patch \<open>k\<close> as the specification words it: one entry
  \<open>(i, dfrac[i][j])\<close> for every surface outflow edge \<open>j\<close> of every patch \<open>i\<close> whose
  receiver is \<open>k\<close>; and the list that the tables of a mesh hold for \<open>k\<close>.\<close>

definition claimed_sfc_inflow ::
  "mesh \<Rightarrow> nat array \<Rightarrow> real array2 \<Rightarrow> nat array2 \<Rightarrow> nat \<Rightarrow> (nat \<times> real) list" where
  "claimed_sfc_inflow M dcount dfrac nbr k =
     concat (map (\<lambda>i. concat (map (\<lambda>j. if patchdex M (nbr i j) = k then [(i, dfrac i j)] else [])
                                  [0..<dcount i]))
                 [0..<num_patches M])"

definition built_sfc_inflow :: "mesh \<Rightarrow> nat \<Rightarrow> (nat \<times> real) list" where
  "built_sfc_inflow M k = map (\<lambda>m. (sfcndxi M k m, sfcgam M k m)) [0..<sfccnti M k]"

text \<open>The same for the subsurface tables: the sources of the outflow edges into \<open>k\<close>, and
  the list that the tables hold.\<close>

definition claimed_sub_inflow :: "mesh \<Rightarrow> nat \<Rightarrow> nat list" where
  "claimed_sub_inflow M k =
     concat (map (\<lambda>i. concat (map (\<lambda>j. if subndxo M i j = k then [i] else []) [0..<subcnto M i]))
                 [0..<num_patches M])"

definition built_sub_inflow :: "mesh \<Rightarrow> nat \<Rightarrow> nat list" where
  "built_sub_inflow M k = map (subndxi M k) [0..<subcnti M k]"

section \<open>Example basins\<close>

text \<open>The value of \<^verbatim>\<open>ZERO\<close> in the examples.\<close>

definition ZERO8 :: real where
  "ZERO8 = 1 / 100000000"

text \<open>One patch without neighbours; its detention depth lies above the water that the
  examples put on it, so nothing flows, and all of the surface water can infiltrate.\<close>

definition one_patch :: mesh where
  "one_patch =
     \<lparr>verbose = 0, num_patches = 1, plist = (\<lambda>i. 10 + i),
      psize = (\<lambda>i. 10), pscale = (\<lambda>i. 0), nsoil = (\<lambda>i. 10), dzsoil = (\<lambda>i. 1 / 10),
      retdep = (\<lambda>i. 5 / 1000), rootzs = (\<lambda>i. 1 / 10), ksatv = (\<lambda>i. 1),
      ksat_0 = (\<lambda>i. 1 / 10000), mz_v = (\<lambda>i. 0), por_0 = (\<lambda>i. 4 / 10),
      por_d = (\<lambda>i. 4000), psiair = (\<lambda>i. 3 / 10), capH2O = (\<lambda>i. 4 / 10),
      sfcknl = (\<lambda>i. 1),
      sfccnti = (\<lambda>i. 0), sfcndxi = (\<lambda>i j. 0), sfcgam = (\<lambda>i j. 0),
      subcnto = (\<lambda>i. 0), subcnti = (\<lambda>i. 0), subndxo = (\<lambda>i j. 0),
      subndxi = (\<lambda>i j. 0), perimf = (\<lambda>i j. 0), subdist = (\<lambda>i j. 0)\<rparr>"

definition wet_patch :: patch_object where
  "wet_patch =
     \<lparr>z = 1, detention_store = 1 / 1000, surface_NO3 = 1 / 2000, surface_NH4 = 0,
      surface_DOC = 0, surface_DON = 0, sat_deficit = 35 / 100, sat_deficit_z = 1 / 2,
      field_capacity = 4 / 10, soil_ns_nitrate = 1 / 100, soil_ns_sminn = 0,
      soil_ns_DON = 0, soil_cs_DOC = 0, transmissivity_profile = (\<lambda>n. 1)\<rparr>"

definition blank :: work where
  "blank =
     \<lparr>waterz = (\<lambda>i. 0),
      totH2O = (\<lambda>i. 0), totNO3 = (\<lambda>i. 0), totNH4 = (\<lambda>i. 0), totDON = (\<lambda>i. 0), totDOC = (\<lambda>i. 0),
      sfcH2O = (\<lambda>i. 0), sfcNO3 = (\<lambda>i. 0), sfcNH4 = (\<lambda>i. 0), sfcDOC = (\<lambda>i. 0), sfcDON = (\<lambda>i. 0),
      infH2O = (\<lambda>i. 0), infNO3 = (\<lambda>i. 0), infNH4 = (\<lambda>i. 0), infDOC = (\<lambda>i. 0), infDON = (\<lambda>i. 0),
      latH2O = (\<lambda>i. 0), latNO3 = (\<lambda>i. 0), latNH4 = (\<lambda>i. 0), latDOC = (\<lambda>i. 0), latDON = (\<lambda>i. 0),
      canH2O = (\<lambda>i. 0), canNO3 = (\<lambda>i. 0), canNH4 = (\<lambda>i. 0), canDOC = (\<lambda>i. 0), canDON = (\<lambda>i. 0)\<rparr>"

definition no_pools :: pools where
  "no_pools = \<lparr>H2O = 0, NO3 = 0, NH4 = 0, DOC = 0, DON = 0\<rparr>"

definition no_stack :: sub_stack where
  "no_stack = \<lparr>dH2Odt0 = (\<lambda>k j. 0), rtefac0 = (\<lambda>k j. 0)\<rparr>"

text \<open>The working columns after the copy-in of \<open>wet_patch\<close>: 1 mm of water and half as
  much nitrate on the surface.\<close>

definition wet_work :: work where
  "wet_work = copy_in ZERO8 one_patch (\<lambda>a. wet_patch) blank"

text \<open>A column that receives more water than it can hold: 0.35 in the column, 0.10
  infiltrating, capacity 0.40.\<close>

definition soaked_work :: work where
  "soaked_work = blank\<lparr>totH2O := (\<lambda>i. 35 / 100), infH2O := (\<lambda>i. 1 / 10), totNO3 := (\<lambda>i. 9 / 1000)\<rparr>"

text \<open>The flat cell without neighbours of the first scenario of the specification: level
  ground (\<open>slope_max = 0\<close>, so \<open>sfcknl = 0\<close>) and \<open>ksat_0 = 0\<close>, so that nothing flows and
  nothing infiltrates.\<close>

definition flat_patch :: mesh where
  "flat_patch = one_patch\<lparr>sfcknl := (\<lambda>i. 0), ksat_0 := (\<lambda>i. 0)\<rparr>"

text \<open>The cell of the third scenario of the specification: \<open>rootzs = 0.1\<close>,
  \<open>ksat_0 = 1e-4\<close>, \<open>psi_air_entry = -0.3\<close>, on level ground, with half of its area
  pervious; and working columns with 0.02 m of water on the surface, which carries
  nitrate, one part in twenty.\<close>

definition seeping_patch :: mesh where
  "seeping_patch = one_patch\<lparr>sfcknl := (\<lambda>i. 0), psiair := (\<lambda>i. - (3 / 10)), ksatv := (\<lambda>i. 1 / 2)\<rparr>"

definition pond_work :: work where
  "pond_work = blank\<lparr>sfcH2O := (\<lambda>i. 1 / 50), sfcNO3 := (\<lambda>i. 1 / 1000)\<rparr>"









text \<open>A patch whose transmissivity profile shows the subscript that is read.\<close>

definition graded_patch :: patch_object where
  "graded_patch = wet_patch\<lparr>sat_deficit := 6 / 10, transmissivity_profile := (\<lambda>n. real_of_int n)\<rparr>"

text \<open>Three patches at the addresses 10, 11 and 12. Below the ground the patches 1 and 2
  drain into patch 0 (one outflow edge each); on the surface patch 2 drains into the
  patches 0 and 1 (two outflow edges). \<open>three_base\<close> is the mesh index after the first
  loop of \<^verbatim>\<open>init_hydro_routing\<close>, where \<open>ndx0\<close>, \<open>gam0\<close> and \<open>sub0\<close> are the contents
  of the freshly allocated inflow tables; \<open>three_built\<close> has the tables that the serial
  loop leaves.\<close>

definition three_base :: "nat array2 \<Rightarrow> real array2 \<Rightarrow> nat array2 \<Rightarrow> mesh" where
  "three_base ndx0 gam0 sub0 =
     one_patch\<lparr>num_patches := 3,
               sfccnti := (\<lambda>i. 0), sfcndxi := ndx0, sfcgam := gam0,
               subcnto := (\<lambda>i. if i = 0 then 0 else 1), subndxo := (\<lambda>i j. 0),
               subcnti := (\<lambda>i. 0), subndxi := sub0,
               subdist := (\<lambda>i j. 10), perimf := (\<lambda>i j. 1 / 2)\<rparr>"

definition three_dcount :: "nat array" where
  "three_dcount = (\<lambda>i. if i = 2 then 2 else 0)"

definition three_nbr :: "nat array2" where
  "three_nbr = (\<lambda>i j. if j = 0 then 10 else 11)"

definition three_built :: "real array2 \<Rightarrow> nat array2 \<Rightarrow> real array2 \<Rightarrow> nat array2 \<Rightarrow> mesh" where
  "three_built dfrac ndx0 gam0 sub0 =
     (three_base ndx0 gam0 sub0)
       \<lparr>sfccnti := (\<lambda>i. if i = 0 then 1 else 0),
        sfcndxi := ndx0(0 := (ndx0 0)(0 := 0)),
        sfcgam := gam0(0 := (gam0 0)(0 := dfrac 0 0)),
        subcnti := (\<lambda>i. if i = 0 then 2 else 0),
        subndxi := sub0(0 := (sub0 0)(0 := 2))\<rparr>"

text \<open>The same basin with the subsurface inflow tables as the specification describes
  them: the inflow list of patch 0 holds the sources 1 and 2.\<close>

definition three_inverse :: "nat array2 \<Rightarrow> real array2 \<Rightarrow> nat array2 \<Rightarrow> mesh" where
  "three_inverse ndx0 gam0 sub0 =
     (three_base ndx0 gam0 sub0)
       \<lparr>subcnti := (\<lambda>i. if i = 0 then 2 else 0),
        subndxi := (\<lambda>i j. if j = 0 then 1 else 2)\<rparr>"

section \<open>Snow interception: bounds\<close>

lemma snow_interception_nonneg:
  "0 \<le> compute_potential_snow_interception NON_VEG snow stratum"
  by (simp add: compute_potential_snow_interception_def Let_def)

lemma snow_interception_le_snow:
  assumes "0 \<le> snow" and "0 \<le> gap_fraction stratum" and "gap_fraction stratum \<le> 1"
  shows "compute_potential_snow_interception NON_VEG snow stratum \<le> snow"
proof -
  have "(1 - gap_fraction stratum) * snow \<le> 1 * snow"
    using assms by (intro mult_right_mono) simp_all
  then have "(1 - gap_fraction stratum) * snow \<le> snow"
    by simp
  then show ?thesis
    using assms(1)
    by (simp add: compute_potential_snow_interception_def Let_def min_le_iff_disj)
qed

text \<open>
  Claim C10. The potential snow interception is never negative, whatever the inputs;
  and when the snowfall is non-negative and the gap fraction of the stratum lies
  between 0 and 1, it is never more than the snowfall.
\<close>

theorem potential_snow_interception_bounds:
  "0 \<le> compute_potential_snow_interception NON_VEG snow stratum \<and>
   (0 \<le> snow \<and> 0 \<le> gap_fraction stratum \<and> gap_fraction stratum \<le> 1
      \<longrightarrow> compute_potential_snow_interception NON_VEG snow stratum \<le> snow)"
  using snow_interception_nonneg snow_interception_le_snow by blast

theorem potential_snow_interception_bounds_witness:
  "0 \<le> compute_potential_snow_interception 20 (3 / 100)
      \<lparr>gap_fraction = 1 / 4, all_pai = 2, snow_stored = 1 / 1000,
       specific_snow_capacity = 4 / 1000, veg_type = 1\<rparr> \<and>
   (0::real) \<le> 3 / 100 \<and> (0::real) \<le> 1 / 4 \<and> (1 / 4 :: real) \<le> 1 \<and>
   compute_potential_snow_interception 20 (3 / 100)
      \<lparr>gap_fraction = 1 / 4, all_pai = 2, snow_stored = 1 / 1000,
       specific_snow_capacity = 4 / 1000, veg_type = 1\<rparr> = 7 / 1000"
  using potential_snow_interception_bounds [of 20 "3 / 100"
      "\<lparr>gap_fraction = 1 / 4, all_pai = 2, snow_stored = 1 / 1000,
       specific_snow_capacity = 4 / 1000, veg_type = 1\<rparr>"]
  by (simp add: compute_potential_snow_interception_def Let_def)

section \<open>Loops and parallel loops\<close>


lemma par_for_below [simp]: "i < n \<Longrightarrow> par_for n f old i = f i"
  by (simp add: par_for_def)

lemma par_for_beyond [simp]: "\<not> i < n \<Longrightarrow> par_for n f old i = old i"
  by (simp add: par_for_def)

text \<open>NaN absorbs, and compares false.\<close>

lemma dbl_nan [simp]:
  "x + NaN = NaN" "x - NaN = NaN" "x * NaN = NaN" "x / NaN = NaN"
  "\<not> x < NaN" "\<not> x \<le> NaN"
  by (cases x; simp)+

text \<open>A list of results that are all present.\<close>

lemma those_snoc:
  "those (xs @ [x])
     = (case those xs of None \<Rightarrow> None
        | Some ys \<Rightarrow> (case x of None \<Rightarrow> None | Some y \<Rightarrow> Some (ys @ [y])))"
  by (induction xs) (auto split: option.splits)


lemma those_upt_SomeD:
  "those (map f [0..<n]) = Some ys \<Longrightarrow> length ys = n \<and> (\<forall>i<n. f i = Some (ys ! i))"
proof (induction n arbitrary: ys)
  case 0
  then show ?case by simp
next
  case (Suc n)
  from Suc.prems obtain zs y where z: "those (map f [0..<n]) = Some zs" and y: "f n = Some y"
    and ys: "ys = zs @ [y]"
    by (auto simp: those_snoc split: option.splits)
  from Suc.IH [OF z] have l: "length zs = n" and a: "\<forall>i<n. f i = Some (zs ! i)" by simp_all
  show ?case
    using l a y ys by (auto simp: nth_append less_Suc_eq)
qed

section \<open>The examples, field by field\<close>

lemma one_patch_sel:
  "num_patches one_patch = 1" "plist one_patch i = 10 + i" "psize one_patch i = 10"
  "pscale one_patch i = 0" "nsoil one_patch i = 10" "dzsoil one_patch i = 1 / 10"
  "retdep one_patch i = 5 / 1000" "rootzs one_patch i = 1 / 10" "ksatv one_patch i = 1"
  "ksat_0 one_patch i = 1 / 10000" "mz_v one_patch i = 0" "por_0 one_patch i = 4 / 10"
  "por_d one_patch i = 4000" "psiair one_patch i = 3 / 10" "capH2O one_patch i = 4 / 10"
  "sfcknl one_patch i = 1" "sfccnti one_patch i = 0" "subcnto one_patch i = 0"
  "subcnti one_patch i = 0"
  by (simp_all add: one_patch_def)

lemma one_patch_branch:
  "rootzs one_patch i < 1" "ksat_0 one_patch i > ZERO8"
  by (simp_all add: one_patch_def ZERO8_def)

lemma wet_patch_sel:
  "z wet_patch = 1" "sat_deficit_z wet_patch = 1 / 2" "sat_deficit wet_patch = 35 / 100"
  "field_capacity wet_patch = 4 / 10"
  by (simp_all add: wet_patch_def)

lemma graded_sel:
  "sat_deficit graded_patch = 6 / 10" "transmissivity_profile graded_patch n = real_of_int n"
  by (simp_all add: graded_patch_def wet_patch_def)

lemma wet_work_sfc:
  "sfcH2O wet_work 0 = 1 / 1000" "sfcNO3 wet_work 0 = 1 / 2000"
  "sfcNH4 wet_work 0 = 0" "sfcDOC wet_work 0 = 0" "sfcDON wet_work 0 = 0"
  "infH2O wet_work 0 = 0" "infNO3 wet_work 0 = 0" "infNH4 wet_work 0 = 0"
  "infDOC wet_work 0 = 0" "infDON wet_work 0 = 0"
  "canH2O wet_work 0 = 0" "canNO3 wet_work 0 = 0" "canNH4 wet_work 0 = 0"
  "canDOC wet_work 0 = 0" "canDON wet_work 0 = 0"
  by (simp_all add: wet_work_def copy_in_def Let_def one_patch_def wet_patch_def blank_def)

lemma three_base_sel:
  "num_patches (three_base ndx0 gam0 sub0) = 3" "plist (three_base ndx0 gam0 sub0) i = 10 + i"
  "sfccnti (three_base ndx0 gam0 sub0) i = 0" "subcnti (three_base ndx0 gam0 sub0) i = 0"
  "subcnto (three_base ndx0 gam0 sub0) i = (if i = 0 then 0 else 1)"
  "subndxo (three_base ndx0 gam0 sub0) i j = 0"
  "sfcndxi (three_base ndx0 gam0 sub0) = ndx0" "sfcgam (three_base ndx0 gam0 sub0) = gam0"
  "subndxi (three_base ndx0 gam0 sub0) = sub0"
  by (simp_all add: three_base_def one_patch_def)

lemma three_built_sel:
  "num_patches (three_built dfrac ndx0 gam0 sub0) = 3"
  "plist (three_built dfrac ndx0 gam0 sub0) i = 10 + i"
  "sfccnti (three_built dfrac ndx0 gam0 sub0) i = (if i = 0 then 1 else 0)"
  "subcnti (three_built dfrac ndx0 gam0 sub0) i = (if i = 0 then 2 else 0)"
  "subcnto (three_built dfrac ndx0 gam0 sub0) i = (if i = 0 then 0 else 1)"
  "subndxo (three_built dfrac ndx0 gam0 sub0) i j = 0"
  "sfcndxi (three_built dfrac ndx0 gam0 sub0) 0 0 = 0"
  "sfcgam (three_built dfrac ndx0 gam0 sub0) 0 0 = dfrac 0 0"
  "subndxi (three_built dfrac ndx0 gam0 sub0) 0 0 = 2"
  "subndxi (three_built dfrac ndx0 gam0 sub0) 0 (Suc 0) = sub0 0 (Suc 0)"
  "subdist (three_built dfrac ndx0 gam0 sub0) i j = 10"
  by (simp_all add: three_built_def three_base_def one_patch_def)

lemma three_inverse_sel:
  "num_patches (three_inverse ndx0 gam0 sub0) = 3"
  "subcnti (three_inverse ndx0 gam0 sub0) i = (if i = 0 then 2 else 0)"
  "subcnto (three_inverse ndx0 gam0 sub0) i = (if i = 0 then 0 else 1)"
  "subndxo (three_inverse ndx0 gam0 sub0) i j = 0"
  "subndxi (three_inverse ndx0 gam0 sub0) i j = (if j = 0 then 1 else 2)"
  "subdist (three_inverse ndx0 gam0 sub0) i j = 10"
  by (simp_all add: three_inverse_def three_base_def one_patch_def)

lemma flat_patch_sel:
  "num_patches flat_patch = 1" "subcnto flat_patch i = 0" "sfcknl flat_patch i = 0"
  "ksat_0 flat_patch i = 0" "retdep flat_patch i = 5 / 1000"
  by (simp_all add: flat_patch_def one_patch_def)

lemma seeping_patch_sel:
  "num_patches seeping_patch = 1" "plist seeping_patch i = 10 + i"
  "retdep seeping_patch i = 5 / 1000" "rootzs seeping_patch i = 1 / 10"
  "ksatv seeping_patch i = 1 / 2" "ksat_0 seeping_patch i = 1 / 10000"
  "mz_v seeping_patch i = 0" "por_0 seeping_patch i = 4 / 10" "por_d seeping_patch i = 4000"
  "psiair seeping_patch i = - (3 / 10)" "sfcknl seeping_patch i = 0"
  "sfccnti seeping_patch i = 0"
  by (simp_all add: seeping_patch_def one_patch_def)

lemma seeping_patch_branch:
  "rootzs seeping_patch i < 1" "ksat_0 seeping_patch i > ZERO8"
  by (simp_all add: seeping_patch_def one_patch_def ZERO8_def)

lemma pond_work_sel:
  "sfcH2O pond_work i = 1 / 50" "sfcNO3 pond_work i = 1 / 1000" "sfcNH4 pond_work i = 0"
  "sfcDOC pond_work i = 0" "sfcDON pond_work i = 0"
  "infH2O pond_work i = 0" "infNO3 pond_work i = 0" "infNH4 pond_work i = 0"
  "infDOC pond_work i = 0" "infDON pond_work i = 0"
  "canH2O pond_work i = 0" "canNO3 pond_work i = 0" "canNH4 pond_work i = 0"
  "canDOC pond_work i = 0" "canDON pond_work i = 0"
  by (simp_all add: pond_work_def blank_def)






section \<open>The steps of \<^verbatim>\<open>sfc_routing\<close>\<close>

lemma fst_sfc_step: "fst (sfc_step ZERO M h beyond tstep t w) = sfc_dt M w tstep t"
  by (simp add: sfc_step_def Let_def)

text \<open>What a step that returns columns has computed.\<close>

lemma sfc_stepD:
  assumes "snd (sfc_step ZERO M h beyond tstep t w) = Some w'"
  shows "\<exists>out upd. sfc_out M w beyond = Some out
         \<and> (\<forall>i<num_patches M.
               sfc_update ZERO M h w out (sfc_dt M w tstep t) i = Some (upd i)
             \<and> sfcH2O w' i = H2O (fst (upd i)) \<and> sfcNO3 w' i = NO3 (fst (upd i))
             \<and> sfcNH4 w' i = NH4 (fst (upd i)) \<and> sfcDOC w' i = DOC (fst (upd i))
             \<and> sfcDON w' i = DON (fst (upd i))
             \<and> infH2O w' i = H2O (snd (upd i)) \<and> infNO3 w' i = NO3 (snd (upd i))
             \<and> infNH4 w' i = NH4 (snd (upd i)) \<and> infDOC w' i = DOC (snd (upd i))
             \<and> infDON w' i = DON (snd (upd i)))"
proof -
  from assms obtain out us where o: "sfc_out M w beyond = Some out"
    and u: "those (map (sfc_update ZERO M h w out (sfc_dt M w tstep t)) [0..<num_patches M]) = Some us"
    and w': "w' = w\<lparr>sfcH2O := par_for (num_patches M) (\<lambda>i. H2O (fst (us ! i))) (sfcH2O w),
                   sfcNO3 := par_for (num_patches M) (\<lambda>i. NO3 (fst (us ! i))) (sfcNO3 w),
                   sfcNH4 := par_for (num_patches M) (\<lambda>i. NH4 (fst (us ! i))) (sfcNH4 w),
                   sfcDOC := par_for (num_patches M) (\<lambda>i. DOC (fst (us ! i))) (sfcDOC w),
                   sfcDON := par_for (num_patches M) (\<lambda>i. DON (fst (us ! i))) (sfcDON w),
                   infH2O := par_for (num_patches M) (\<lambda>i. H2O (snd (us ! i))) (infH2O w),
                   infNO3 := par_for (num_patches M) (\<lambda>i. NO3 (snd (us ! i))) (infNO3 w),
                   infNH4 := par_for (num_patches M) (\<lambda>i. NH4 (snd (us ! i))) (infNH4 w),
                   infDOC := par_for (num_patches M) (\<lambda>i. DOC (snd (us ! i))) (infDOC w),
                   infDON := par_for (num_patches M) (\<lambda>i. DON (snd (us ! i))) (infDON w)\<rparr>"
    by (auto simp: sfc_step_def Let_def split: option.splits)
  from those_upt_SomeD [OF u]
  have a: "\<And>i. i < num_patches M \<Longrightarrow>
       sfc_update ZERO M h w out (sfc_dt M w tstep t) i = Some (us ! i)" by simp
  have "\<forall>i<num_patches M.
               sfc_update ZERO M h w out (sfc_dt M w tstep t) i = Some (us ! i)
             \<and> sfcH2O w' i = H2O (fst (us ! i)) \<and> sfcNO3 w' i = NO3 (fst (us ! i))
             \<and> sfcNH4 w' i = NH4 (fst (us ! i)) \<and> sfcDOC w' i = DOC (fst (us ! i))
             \<and> sfcDON w' i = DON (fst (us ! i))
             \<and> infH2O w' i = H2O (snd (us ! i)) \<and> infNO3 w' i = NO3 (snd (us ! i))
             \<and> infNH4 w' i = NH4 (snd (us ! i)) \<and> infDOC w' i = DOC (snd (us ! i))
             \<and> infDON w' i = DON (snd (us ! i))"
    by (simp add: a w' par_for_def)
  then show ?thesis using o by blast
qed

text \<open>An internal step that takes the whole of \<open>tstep\<close> ends the loop.\<close>

lemma sfc_loop_one_step:
  assumes "snd (sfc_step ZERO M h beyond tstep 0 w) = Some w1"
    and "fst (sfc_step ZERO M h beyond tstep 0 w) = tstep" and "EPSILON < tstep"
  shows "sfc_loop (Suc fuel) ZERO M h beyond tstep 0 w = Inr w1"
  using assms by (cases fuel) (simp_all add: EPSILON_def)

section \<open>The Courant-stable steps of the two routers\<close>







lemma fst_sub_routing: "fst (sub_routing ZERO M h st tstep w) = sub_dt ZERO M h w tstep"
  by (simp add: sub_routing_def Let_def)

lemma one_patch_dt: "sfc_dt one_patch wet_work 60 0 = 60"
  by (simp add: sfc_dt_def sfc_cmax_def one_patch_def wet_work_sfc COUMAX_def Let_def)



section \<open>\<^verbatim>\<open>sub_vertical\<close>: the excess over the capacity\<close>

lemma excess_fac_times:
  assumes "H2O (tot_added w i) \<noteq> 0"
  shows "excess_fac M w i * H2O (tot_added w i) = H2O (tot_added w i) - capH2O M i"
  using assms by (simp add: excess_fac_def)

lemma sub_vertical_over:
  assumes "i < num_patches M" and "H2O (tot_added w i) > capH2O M i"
  shows "totH2O (sub_vertical zfinal M h tstep w) i
           = H2O (tot_added w i) - excess_fac M w i * H2O (tot_added w i)"
    and "sfcH2O (sub_vertical zfinal M h tstep w) i
           = sfcH2O w i + excess_fac M w i * H2O (tot_added w i)"
    and "totNO3 (sub_vertical zfinal M h tstep w) i
           = NO3 (tot_added w i) - excess_fac M w i * NO3 (tot_added w i)"
    and "sfcNO3 (sub_vertical zfinal M h tstep w) i
           = sfcNO3 w i + excess_fac M w i * NO3 (tot_added w i)"
    and "totNH4 (sub_vertical zfinal M h tstep w) i
           = NH4 (tot_added w i) - excess_fac M w i * NH4 (tot_added w i)"
    and "sfcNH4 (sub_vertical zfinal M h tstep w) i
           = sfcNH4 w i + excess_fac M w i * NH4 (tot_added w i)"
    and "totDOC (sub_vertical zfinal M h tstep w) i
           = DOC (tot_added w i) - excess_fac M w i * DOC (tot_added w i)"
    and "sfcDOC (sub_vertical zfinal M h tstep w) i
           = sfcDOC w i + excess_fac M w i * DOC (tot_added w i)"
    and "totDON (sub_vertical zfinal M h tstep w) i
           = DON (tot_added w i) - excess_fac M w i * DON (tot_added w i)"
    and "sfcDON (sub_vertical zfinal M h tstep w) i
           = sfcDON w i + excess_fac M w i * DON (tot_added w i)"
    and "waterz (sub_vertical zfinal M h tstep w) i = z (h (plist M i))"
  using assms by (simp_all add: sub_vertical_def Let_def)

lemma keep_sum:
  fixes a b c :: real
  shows "(a + c) + (b - c) = a + b"
  by simp

text \<open>
  Claim C5. For a patch whose column water after the addition of the infiltration and the
  lateral delta exceeds \<open>capH2O\<close>, \<^verbatim>\<open>sub_vertical\<close> moves exactly the excess into
  \<open>sfcH2O\<close> and leaves \<open>totH2O = capH2O\<close>; every solute moves from its column pool to its
  surface pool by the same fraction \<open>f = (totH2O - capH2O) / totH2O\<close>, so that the sum
  \<open>sfcX + totX\<close> of each species is unchanged; and \<open>waterz[i]\<close> becomes \<open>patch.z\<close>. The
  fraction divides by the column water: the statement is one of exact arithmetic for
  a column whose water after the additions is not zero, which holds whenever the
  capacity is not negative.
\<close>

theorem sub_vertical_spills_excess:
  assumes "i < num_patches M"
    and "totH2O w i + infH2O w i + latH2O w i > capH2O M i"
    and "totH2O w i + infH2O w i + latH2O w i \<noteq> 0"
  shows "sfcH2O (sub_vertical zfinal M h tstep w) i
           = sfcH2O w i + (totH2O w i + infH2O w i + latH2O w i - capH2O M i)
       \<and> totH2O (sub_vertical zfinal M h tstep w) i = capH2O M i
       \<and> excess_fac M w i
           = (totH2O w i + infH2O w i + latH2O w i - capH2O M i) / (totH2O w i + infH2O w i + latH2O w i)
       \<and> sfcNO3 (sub_vertical zfinal M h tstep w) i
           = sfcNO3 w i + excess_fac M w i * (totNO3 w i + infNO3 w i + latNO3 w i)
       \<and> totNO3 (sub_vertical zfinal M h tstep w) i
           = (totNO3 w i + infNO3 w i + latNO3 w i) - excess_fac M w i * (totNO3 w i + infNO3 w i + latNO3 w i)
       \<and> sfcNH4 (sub_vertical zfinal M h tstep w) i
           = sfcNH4 w i + excess_fac M w i * (totNH4 w i + infNH4 w i + latNH4 w i)
       \<and> totNH4 (sub_vertical zfinal M h tstep w) i
           = (totNH4 w i + infNH4 w i + latNH4 w i) - excess_fac M w i * (totNH4 w i + infNH4 w i + latNH4 w i)
       \<and> sfcDOC (sub_vertical zfinal M h tstep w) i
           = sfcDOC w i + excess_fac M w i * (totDOC w i + infDOC w i + latDOC w i)
       \<and> totDOC (sub_vertical zfinal M h tstep w) i
           = (totDOC w i + infDOC w i + latDOC w i) - excess_fac M w i * (totDOC w i + infDOC w i + latDOC w i)
       \<and> sfcDON (sub_vertical zfinal M h tstep w) i
           = sfcDON w i + excess_fac M w i * (totDON w i + infDON w i + latDON w i)
       \<and> totDON (sub_vertical zfinal M h tstep w) i
           = (totDON w i + infDON w i + latDON w i) - excess_fac M w i * (totDON w i + infDON w i + latDON w i)
       \<and> sfcH2O (sub_vertical zfinal M h tstep w) i + totH2O (sub_vertical zfinal M h tstep w) i
           = sfcH2O w i + (totH2O w i + infH2O w i + latH2O w i)
       \<and> sfcNO3 (sub_vertical zfinal M h tstep w) i + totNO3 (sub_vertical zfinal M h tstep w) i
           = sfcNO3 w i + (totNO3 w i + infNO3 w i + latNO3 w i)
       \<and> sfcNH4 (sub_vertical zfinal M h tstep w) i + totNH4 (sub_vertical zfinal M h tstep w) i
           = sfcNH4 w i + (totNH4 w i + infNH4 w i + latNH4 w i)
       \<and> sfcDOC (sub_vertical zfinal M h tstep w) i + totDOC (sub_vertical zfinal M h tstep w) i
           = sfcDOC w i + (totDOC w i + infDOC w i + latDOC w i)
       \<and> sfcDON (sub_vertical zfinal M h tstep w) i + totDON (sub_vertical zfinal M h tstep w) i
           = sfcDON w i + (totDON w i + infDON w i + latDON w i)
       \<and> waterz (sub_vertical zfinal M h tstep w) i = z (h (plist M i))"
proof -
  have t: "H2O (tot_added w i) = totH2O w i + infH2O w i + latH2O w i"
    "NO3 (tot_added w i) = totNO3 w i + infNO3 w i + latNO3 w i"
    "NH4 (tot_added w i) = totNH4 w i + infNH4 w i + latNH4 w i"
    "DOC (tot_added w i) = totDOC w i + infDOC w i + latDOC w i"
    "DON (tot_added w i) = totDON w i + infDON w i + latDON w i"
    by (simp_all add: tot_added_def)
  have over: "H2O (tot_added w i) > capH2O M i" using assms(2) t by simp
  have nz: "H2O (tot_added w i) \<noteq> 0" using assms(3) t by simp
  note ov = sub_vertical_over [OF assms(1) over, of zfinal h tstep, unfolded t]
  note ft = excess_fac_times [OF nz, of M, unfolded t]
  have f: "excess_fac M w i
      = (totH2O w i + infH2O w i + latH2O w i - capH2O M i) / (totH2O w i + infH2O w i + latH2O w i)"
    by (simp add: excess_fac_def t)
  have w1: "sfcH2O (sub_vertical zfinal M h tstep w) i
      = sfcH2O w i + (totH2O w i + infH2O w i + latH2O w i - capH2O M i)"
    using ov(2) ft by simp
  have w2: "totH2O (sub_vertical zfinal M h tstep w) i = capH2O M i"
    using ov(1) ft by simp
  show ?thesis
    using w1 w2 f ov(3-11) by (simp only: keep_sum simp_thms)
qed

text \<open>The witness: the column of \<open>soaked_work\<close> holds 0.35 and receives 0.10 against a
  capacity of 0.40. The excess 0.05 appears on the surface with one ninth of the
  column's nitrate.\<close>

theorem sub_vertical_spills_excess_witness:
  "(0::nat) < num_patches one_patch
   \<and> totH2O soaked_work 0 + infH2O soaked_work 0 + latH2O soaked_work 0 > capH2O one_patch 0
   \<and> totH2O soaked_work 0 + infH2O soaked_work 0 + latH2O soaked_work 0 \<noteq> 0
   \<and> sfcH2O (sub_vertical (\<lambda>v p0 p d zi dw. 0) one_patch (\<lambda>a. wet_patch) 60 soaked_work) 0 = 5 / 100
   \<and> totH2O (sub_vertical (\<lambda>v p0 p d zi dw. 0) one_patch (\<lambda>a. wet_patch) 60 soaked_work) 0 = 4 / 10
   \<and> excess_fac one_patch soaked_work 0 = 1 / 9
   \<and> sfcNO3 (sub_vertical (\<lambda>v p0 p d zi dw. 0) one_patch (\<lambda>a. wet_patch) 60 soaked_work) 0 = 1 / 1000
   \<and> totNO3 (sub_vertical (\<lambda>v p0 p d zi dw. 0) one_patch (\<lambda>a. wet_patch) 60 soaked_work) 0 = 8 / 1000
   \<and> waterz (sub_vertical (\<lambda>v p0 p d zi dw. 0) one_patch (\<lambda>a. wet_patch) 60 soaked_work) 0 = 1"
  using sub_vertical_spills_excess [of 0 one_patch soaked_work "\<lambda>v p0 p d zi dw. 0" "\<lambda>a. wet_patch" 60]
  by (simp add: one_patch_def soaked_work_def blank_def wet_patch_def)

section \<open>\<^verbatim>\<open>sfc_routing\<close>: the infiltration transfer\<close>

lemma sfc_update_infiltrating:
  assumes "rootzs M i < 1" and "ksat_0 M i > ZERO"
  shows "sfc_update ZERO M h w out dt i
           = infil_transfer
               (infil_delta ZERO M (sat_deficit_z (h (plist M i))) i dt (H2O (sfc_advect M w out dt i)))
               (sfc_advect M w out dt i, inf_pools w i)"
  using assms by (simp add: sfc_update_def Let_def)

lemma inf_pools_sel [simp]:
  "H2O (inf_pools w i) = infH2O w i" "NO3 (inf_pools w i) = infNO3 w i"
  "NH4 (inf_pools w i) = infNH4 w i" "DOC (inf_pools w i) = infDOC w i"
  "DON (inf_pools w i) = infDON w i"
  by (simp_all add: inf_pools_def)

text \<open>An amount that is a number, taken from surface water that is not zero, is moved.\<close>

lemma infil_transfer_number:
  assumes "H2O s \<noteq> 0"
  shows "infil_transfer (Num d) (s, q)
           = Some (\<lparr>H2O = H2O s - d,
                    NO3 = NO3 s - (d / H2O s) * NO3 s,
                    NH4 = NH4 s - (d / H2O s) * NH4 s,
                    DOC = DOC s - (d / H2O s) * DOC s,
                    DON = DON s - (d / H2O s) * DON s\<rparr>,
                   \<lparr>H2O = H2O q + d,
                    NO3 = NO3 q + (d / H2O s) * NO3 s,
                    NH4 = NH4 q + (d / H2O s) * NH4 s,
                    DOC = DOC q + (d / H2O s) * DOC s,
                    DON = DON q + (d / H2O s) * DON s\<rparr>)"
  using assms by (simp add: infil_transfer_def Let_def)

text \<open>On a patch without surface water the transfer leaves no numbers.\<close>

lemma infil_transfer_dry: "H2O s = 0 \<Longrightarrow> infil_transfer delta (s, q) = None"
  by (cases delta) (simp_all add: infil_transfer_def Let_def)

lemma ratio_kept:
  fixes x s d :: real
  assumes "0 < s" "d < s"
  shows "(x - (d / s) * x) / (s - d) = x / s"
proof -
  have "x - (d / s) * x = (x / s) * (s - d)"
    using assms by (simp add: field_simps)
  then show ?thesis using assms by simp
qed

text \<open>
  Claim C6, as amended. When the infiltration branch runs on a patch with surface water
  \<open>s > 0\<close> (the value of \<open>sfcH2O[i]\<close> after the inflows of the step were applied) and
  moves an amount \<open>0 \<le> d \<le> s\<close>, then the iteration leaves numbers in the pools of the
  patch: \<open>sfcH2O\<close> has fallen by exactly \<open>d\<close> and \<open>infH2O\<close> has risen by exactly \<open>d\<close>, every
  solute has moved by the fraction \<open>d / s\<close> taken before the water is removed, and every
  sum \<open>sfcX + infX\<close> is unchanged. The ratios \<open>sfcX / sfcH2O\<close> are unchanged when \<open>d < s\<close>.
  When \<open>d = s\<close> the five surface pools are all emptied, and no ratio is left.
  Here \<open>sfc'\<close> and \<open>inf'\<close> are the values that the iteration stores in \<open>sfcX[i]\<close> and
  \<open>infX[i]\<close>, whatever happens on the other patches; where the internal step as a whole
  leaves columns of numbers \<open>w'\<close>, these are their entries for the patch.
\<close>

theorem infiltration_moves_by_fraction:
  assumes "rootzs M i < 1" and "ksat_0 M i > ZERO"
    and "s = sfc_advect M w out dt i"
    and "infil_delta ZERO M (sat_deficit_z (h (plist M i))) i dt (H2O s) = Num d"
    and "0 < H2O s" and "0 \<le> d" and "d \<le> H2O s"
  shows "\<exists>sfc' inf'. sfc_update ZERO M h w out dt i = Some (sfc', inf')
       \<and> H2O sfc' = H2O s - d \<and> H2O inf' = infH2O w i + d
       \<and> NO3 sfc' = NO3 s - (d / H2O s) * NO3 s
       \<and> NH4 sfc' = NH4 s - (d / H2O s) * NH4 s
       \<and> DOC sfc' = DOC s - (d / H2O s) * DOC s
       \<and> DON sfc' = DON s - (d / H2O s) * DON s
       \<and> H2O sfc' + H2O inf' = H2O s + infH2O w i
       \<and> NO3 sfc' + NO3 inf' = NO3 s + infNO3 w i
       \<and> NH4 sfc' + NH4 inf' = NH4 s + infNH4 w i
       \<and> DOC sfc' + DOC inf' = DOC s + infDOC w i
       \<and> DON sfc' + DON inf' = DON s + infDON w i
       \<and> (d < H2O s \<longrightarrow>
            NO3 sfc' / H2O sfc' = NO3 s / H2O s
          \<and> NH4 sfc' / H2O sfc' = NH4 s / H2O s
          \<and> DOC sfc' / H2O sfc' = DOC s / H2O s
          \<and> DON sfc' / H2O sfc' = DON s / H2O s)
       \<and> (d = H2O s \<longrightarrow>
            H2O sfc' = 0 \<and> NO3 sfc' = 0 \<and> NH4 sfc' = 0 \<and> DOC sfc' = 0 \<and> DON sfc' = 0)
       \<and> (i < num_patches M \<and> sfc_out M w beyond = Some out \<and> dt = sfc_dt M w tstep t
            \<and> snd (sfc_step ZERO M h beyond tstep t w) = Some w'
          \<longrightarrow> sfcH2O w' i = H2O sfc' \<and> sfcNO3 w' i = NO3 sfc' \<and> sfcNH4 w' i = NH4 sfc'
            \<and> sfcDOC w' i = DOC sfc' \<and> sfcDON w' i = DON sfc'
            \<and> infH2O w' i = H2O inf' \<and> infNO3 w' i = NO3 inf' \<and> infNH4 w' i = NH4 inf'
            \<and> infDOC w' i = DOC inf' \<and> infDON w' i = DON inf')"
proof -
  let ?p = "\<lparr>H2O = H2O s - d,
            NO3 = NO3 s - (d / H2O s) * NO3 s,
            NH4 = NH4 s - (d / H2O s) * NH4 s,
            DOC = DOC s - (d / H2O s) * DOC s,
            DON = DON s - (d / H2O s) * DON s\<rparr>"
  let ?q = "\<lparr>H2O = infH2O w i + d,
            NO3 = infNO3 w i + (d / H2O s) * NO3 s,
            NH4 = infNH4 w i + (d / H2O s) * NH4 s,
            DOC = infDOC w i + (d / H2O s) * DOC s,
            DON = infDON w i + (d / H2O s) * DON s\<rparr>"
  have nz: "H2O s \<noteq> 0" using assms(5) by simp
  have "sfc_update ZERO M h w out dt i = infil_transfer (Num d) (s, inf_pools w i)"
    using sfc_update_infiltrating [OF assms(1,2), of h w out dt] assms(3,4) by simp
  also have "\<dots> = Some (?p, ?q)"
    by (simp add: infil_transfer_number [OF nz])
  finally have u: "sfc_update ZERO M h w out dt i = Some (?p, ?q)" .
  have r: "d < H2O s \<Longrightarrow> (x - (d / H2O s) * x) / (H2O s - d) = x / H2O s" for x
    using ratio_kept [OF assms(5)] by simp
  have z: "d = H2O s \<Longrightarrow> x - (d / H2O s) * x = 0" for x
    using assms(5) by simp
  have e: "sfcH2O w' i = H2O ?p \<and> sfcNO3 w' i = NO3 ?p \<and> sfcNH4 w' i = NH4 ?p
         \<and> sfcDOC w' i = DOC ?p \<and> sfcDON w' i = DON ?p
         \<and> infH2O w' i = H2O ?q \<and> infNO3 w' i = NO3 ?q \<and> infNH4 w' i = NH4 ?q
         \<and> infDOC w' i = DOC ?q \<and> infDON w' i = DON ?q"
    if "i < num_patches M" "sfc_out M w beyond = Some out" "dt = sfc_dt M w tstep t"
      "snd (sfc_step ZERO M h beyond tstep t w) = Some w'"
  proof -
    from sfc_stepD [OF that(4)] obtain out' upd where o: "sfc_out M w beyond = Some out'"
      and ue: "\<forall>k<num_patches M.
               sfc_update ZERO M h w out' (sfc_dt M w tstep t) k = Some (upd k)
             \<and> sfcH2O w' k = H2O (fst (upd k)) \<and> sfcNO3 w' k = NO3 (fst (upd k))
             \<and> sfcNH4 w' k = NH4 (fst (upd k)) \<and> sfcDOC w' k = DOC (fst (upd k))
             \<and> sfcDON w' k = DON (fst (upd k))
             \<and> infH2O w' k = H2O (snd (upd k)) \<and> infNO3 w' k = NO3 (snd (upd k))
             \<and> infNH4 w' k = NH4 (snd (upd k)) \<and> infDOC w' k = DOC (snd (upd k))
             \<and> infDON w' k = DON (snd (upd k))"
      by blast
    have "out' = out" using o that(2) by simp
    then have "upd i = (?p, ?q)"
      using ue [rule_format, OF that(1)] u that(3) by simp
    then show ?thesis
      using ue [rule_format, OF that(1)] by simp
  qed
  show ?thesis
    by (rule exI [of _ ?p], rule exI [of _ ?q]) (use u r z e in simp)
qed

text \<open>The third scenario, evaluated. The rates are zero on level ground, the step is the
  whole 60 s. \<open>psi_f\<close> is negative, so the sorptivity \<open>Sp\<close> is the root of a negative number
  and \<open>delta\<close> is a NaN, which is not below the surface water: the pervious half of the
  water infiltrates.\<close>

lemma seeping_rate:
  "sfc_rate seeping_patch pond_work i = Some \<lparr>H2O = 0, NO3 = 0, NH4 = 0, DOC = 0, DON = 0\<rparr>"
  by (simp add: sfc_rate_def Let_def seeping_patch_sel pond_work_sel)

lemma seeping_out:
  "sfc_out seeping_patch pond_work (\<lambda>k. no_pools) = Some (\<lambda>k. no_pools)"
  by (simp add: sfc_out_def seeping_patch_sel seeping_rate no_pools_def fun_eq_iff)

lemma seeping_dt: "sfc_dt seeping_patch pond_work 60 0 = 60"
  by (simp add: sfc_dt_def sfc_cmax_def seeping_patch_sel pond_work_sel COUMAX_def Let_def)

lemma seeping_advect:
  "sfc_advect seeping_patch pond_work (\<lambda>k. no_pools) 60 i
     = \<lparr>H2O = 1 / 50, NO3 = 1 / 1000, NH4 = 0, DOC = 0, DON = 0\<rparr>"
  by (simp add: sfc_advect_def sfc_sum_def Let_def seeping_patch_sel pond_work_sel no_pools_def)

lemma seeping_delta:
  "infil_delta ZERO8 seeping_patch (1 / 2) i 60 (1 / 50) = Num (1 / 100)"
  by (simp add: infil_delta_def Let_def seeping_patch_sel ZERO8_def)


lemma seeping_update:
  "sfc_update ZERO8 seeping_patch (\<lambda>a. wet_patch) pond_work (\<lambda>k. no_pools) 60 i
     = Some (\<lparr>H2O = 1 / 100, NO3 = 1 / 2000, NH4 = 0, DOC = 0, DON = 0\<rparr>,
             \<lparr>H2O = 1 / 100, NO3 = 1 / 2000, NH4 = 0, DOC = 0, DON = 0\<rparr>)"
  by (simp add: sfc_update_infiltrating [OF seeping_patch_branch] seeping_advect wet_patch_sel
      seeping_delta infil_transfer_number pond_work_sel inf_pools_def)

lemma seeping_step:
  "\<exists>w'. snd (sfc_step ZERO8 seeping_patch (\<lambda>a. wet_patch) (\<lambda>k. no_pools) 60 0 pond_work) = Some w'"
  by (simp add: sfc_step_def Let_def seeping_out seeping_dt seeping_update seeping_patch_sel)

text \<open>The witness: the third scenario of the specification. Of the 0.02 m of surface
  water the pervious half infiltrates in the step of 60 s, with half of the nitrate; the
  ratio stays 1/20.\<close>

theorem infiltration_moves_by_fraction_witness:
  "rootzs seeping_patch 0 < 1 \<and> ksat_0 seeping_patch 0 > ZERO8
   \<and> sfc_out seeping_patch pond_work (\<lambda>k. no_pools) = Some (\<lambda>k. no_pools)
   \<and> sfc_dt seeping_patch pond_work 60 0 = 60
   \<and> H2O (sfc_advect seeping_patch pond_work (\<lambda>k. no_pools) 60 0) = 1 / 50
   \<and> infil_delta ZERO8 seeping_patch (sat_deficit_z wet_patch) 0 60 (1 / 50) = Num (1 / 100)
   \<and> (0::real) < 1 / 50 \<and> (0::real) \<le> 1 / 100 \<and> (1 / 100 :: real) < 1 / 50
   \<and> sfc_update ZERO8 seeping_patch (\<lambda>a. wet_patch) pond_work (\<lambda>k. no_pools) 60 0
       = Some (\<lparr>H2O = 1 / 100, NO3 = 1 / 2000, NH4 = 0, DOC = 0, DON = 0\<rparr>,
               \<lparr>H2O = 1 / 100, NO3 = 1 / 2000, NH4 = 0, DOC = 0, DON = 0\<rparr>)
   \<and> (0::nat) < num_patches seeping_patch
   \<and> snd (sfc_step ZERO8 seeping_patch (\<lambda>a. wet_patch) (\<lambda>k. no_pools) 60 0 pond_work) \<noteq> None
   \<and> sfcH2O (the (snd (sfc_step ZERO8 seeping_patch (\<lambda>a. wet_patch) (\<lambda>k. no_pools) 60 0 pond_work))) 0
       = 1 / 100
   \<and> infH2O (the (snd (sfc_step ZERO8 seeping_patch (\<lambda>a. wet_patch) (\<lambda>k. no_pools) 60 0 pond_work))) 0
       = 1 / 100
   \<and> sfcNO3 (the (snd (sfc_step ZERO8 seeping_patch (\<lambda>a. wet_patch) (\<lambda>k. no_pools) 60 0 pond_work))) 0
       = 1 / 2000
   \<and> infNO3 (the (snd (sfc_step ZERO8 seeping_patch (\<lambda>a. wet_patch) (\<lambda>k. no_pools) 60 0 pond_work))) 0
       = 1 / 2000
   \<and> sfcNO3 pond_work 0 / sfcH2O pond_work 0 = 1 / 20
   \<and> sfcNO3 (the (snd (sfc_step ZERO8 seeping_patch (\<lambda>a. wet_patch) (\<lambda>k. no_pools) 60 0 pond_work))) 0
       / sfcH2O (the (snd (sfc_step ZERO8 seeping_patch (\<lambda>a. wet_patch) (\<lambda>k. no_pools) 60 0 pond_work))) 0
       = 1 / 20"
proof -
  let ?r = "snd (sfc_step ZERO8 seeping_patch (\<lambda>a. wet_patch) (\<lambda>k. no_pools) 60 0 pond_work)"
  let ?s = "sfc_advect seeping_patch pond_work (\<lambda>k. no_pools) 60 0"
  from seeping_step obtain wr where run: "?r = Some wr" by blast
  have s: "?s = \<lparr>H2O = 1 / 50, NO3 = 1 / 1000, NH4 = 0, DOC = 0, DON = 0\<rparr>"
    by (simp add: seeping_advect)
  have d: "infil_delta ZERO8 seeping_patch (sat_deficit_z ((\<lambda>a. wet_patch) (plist seeping_patch 0))) 0
             60 (H2O ?s) = Num (1 / 100)"
    by (simp add: seeping_advect wet_patch_sel seeping_delta)
  have p: "0 < H2O ?s" "(0::real) \<le> 1 / 100" "1 / 100 \<le> H2O ?s"
    by (simp_all add: s)
  have n: "(0::nat) < num_patches seeping_patch"
    by (simp add: seeping_patch_sel)
  note t = infiltration_moves_by_fraction [OF seeping_patch_branch refl d p,
      where beyond = "\<lambda>k. no_pools" and tstep = 60 and t = 0 and w' = wr]
  have w: "sfcH2O wr 0 = 1 / 100" "infH2O wr 0 = 1 / 100"
    "sfcNO3 wr 0 = 1 / 2000" "infNO3 wr 0 = 1 / 2000"
    using t n seeping_out seeping_dt run by (auto simp: seeping_update)
  show ?thesis
    unfolding run option.sel w using n seeping_patch_branch [of 0]
    by (simp add: seeping_out seeping_dt seeping_advect seeping_delta seeping_update wet_patch_sel
        pond_work_sel)
qed

text \<open>On a saturated patch (\<open>sat_deficit_z = 0\<close>) with a decaying conductivity the mean
  conductivity is the quotient of two zeros, a NaN: the tests with it fail, and the
  pervious part of the surface water infiltrates.\<close>

lemma infil_delta_saturated:
  assumes "mz_v M i > ZERO" and "0 \<le> ZERO"
  shows "infil_delta ZERO M 0 i dt s = Num (ksatv M i * s)"
proof -
  have "mz_v M i \<noteq> 0" using assms by simp
  then show ?thesis
    using assms(1) by (simp add: infil_delta_def Let_def)
qed

lemma one_patch_rate:
  "sfc_rate one_patch wet_work 0 = Some \<lparr>H2O = 0, NO3 = 0, NH4 = 0, DOC = 0, DON = 0\<rparr>"
  by (simp add: sfc_rate_def Let_def one_patch_sel wet_work_sfc)

lemma one_patch_out:
  "sfc_out one_patch wet_work (\<lambda>k. no_pools) = Some (\<lambda>k. no_pools)"
  by (simp add: sfc_out_def one_patch_sel one_patch_rate no_pools_def fun_eq_iff)

lemma one_patch_advect:
  "sfc_advect one_patch wet_work (\<lambda>k. no_pools) 60 0
     = \<lparr>H2O = 1 / 1000, NO3 = 1 / 2000, NH4 = 0, DOC = 0, DON = 0\<rparr>"
  by (simp add: sfc_advect_def sfc_sum_def Let_def one_patch_sel wet_work_sfc no_pools_def)

lemma one_patch_delta:
  "infil_delta ZERO8 one_patch (1 / 2) 0 60 (1 / 1000) = Num (1 / 1000)"
  by (simp add: infil_delta_def Let_def one_patch_sel ZERO8_def)

lemma one_patch_update:
  "sfc_update ZERO8 one_patch (\<lambda>a. wet_patch) wet_work (\<lambda>k. no_pools) 60 0
     = Some (\<lparr>H2O = 0, NO3 = 0, NH4 = 0, DOC = 0, DON = 0\<rparr>,
             \<lparr>H2O = 1 / 1000, NO3 = 1 / 2000, NH4 = 0, DOC = 0, DON = 0\<rparr>)"
  by (simp add: sfc_update_infiltrating [OF one_patch_branch] one_patch_advect wet_patch_sel
      one_patch_delta infil_transfer_number wet_work_sfc inf_pools_def)

text \<open>
  Claim C6, the counterexample. On \<open>one_patch\<close> (\<open>ksatv = 1\<close>) the infiltration branch runs
  with \<open>s = 1/1000 > 0\<close> and moves \<open>d = 1/1000\<close>, so \<open>0 \<le> d \<le> s\<close>. Afterwards the surface
  water and the surface nitrate are both 0: the ratio, which was 1/2, is not kept
  (in the program the quotient of the two zeros is a NaN; in HOL it is 0).
\<close>

theorem emptied_surface_has_no_ratio:
  "rootzs one_patch 0 < 1 \<and> ksat_0 one_patch 0 > ZERO8
   \<and> sfcH2O wet_work 0 = 1 / 1000 \<and> sfcNO3 wet_work 0 = 1 / 2000
   \<and> sfc_out one_patch wet_work (\<lambda>k. no_pools) = Some (\<lambda>k. no_pools)
   \<and> H2O (sfc_advect one_patch wet_work (\<lambda>k. no_pools) (sfc_dt one_patch wet_work 60 0) 0) = 1 / 1000
   \<and> infil_delta ZERO8 one_patch (sat_deficit_z wet_patch) 0 (sfc_dt one_patch wet_work 60 0) (1 / 1000)
       = Num (1 / 1000)
   \<and> snd (sfc_step ZERO8 one_patch (\<lambda>a. wet_patch) (\<lambda>k. no_pools) 60 0 wet_work) \<noteq> None
   \<and> sfcH2O (the (snd (sfc_step ZERO8 one_patch (\<lambda>a. wet_patch) (\<lambda>k. no_pools) 60 0 wet_work))) 0 = 0
   \<and> sfcNO3 (the (snd (sfc_step ZERO8 one_patch (\<lambda>a. wet_patch) (\<lambda>k. no_pools) 60 0 wet_work))) 0 = 0
   \<and> infH2O (the (snd (sfc_step ZERO8 one_patch (\<lambda>a. wet_patch) (\<lambda>k. no_pools) 60 0 wet_work))) 0
       = 1 / 1000
   \<and> sfcNO3 (the (snd (sfc_step ZERO8 one_patch (\<lambda>a. wet_patch) (\<lambda>k. no_pools) 60 0 wet_work))) 0
       / sfcH2O (the (snd (sfc_step ZERO8 one_patch (\<lambda>a. wet_patch) (\<lambda>k. no_pools) 60 0 wet_work))) 0
       \<noteq> sfcNO3 wet_work 0 / sfcH2O wet_work 0"
  by (simp add: sfc_step_def Let_def one_patch_out one_patch_dt one_patch_advect one_patch_delta
      one_patch_update wet_patch_sel wet_work_sfc one_patch_sel(1) one_patch_branch)

section \<open>\<^verbatim>\<open>hydro_routing\<close> with a zero external step\<close>

lemma coupling_loop_zero_step:
  "extstep \<le> EPSILON \<Longrightarrow> coupling_loop body fuel extstep w = Some ([], w)"
  by (cases fuel) simp_all

lemma store_patch_copy_in:
  assumes "i < num_patches M"
    and "p = h (plist M i) \<or> p = settle ZERO (h (plist M i))"
  shows "store_patch (copy_in ZERO M h w) i p = settle ZERO (h (plist M i))"
  using assms by (auto simp: store_patch_def copy_in_def Let_def settle_def)

text \<open>The copy back of the columns that were just copied in settles every patch of the
  route list and touches no other; this holds also when the list names a patch twice.\<close>

lemma copy_back_copy_in:
  "m \<le> num_patches M \<Longrightarrow>
   copy_back M (copy_in ZERO M h w) m h a
     = (if a \<in> plist M ` {..<m} then settle ZERO (h a) else h a)"
proof (induction m arbitrary: a)
  case 0
  show ?case by simp
next
  case (Suc m)
  let ?w = "copy_in ZERO M h w"
  have m: "m < num_patches M" "m \<le> num_patches M" using Suc.prems by simp_all
  have ih: "copy_back M ?w m h b = (if b \<in> plist M ` {..<m} then settle ZERO (h b) else h b)" for b
    using Suc.IH [OF m(2)] .
  have st: "store_patch ?w m (copy_back M ?w m h (plist M m)) = settle ZERO (h (plist M m))"
    by (rule store_patch_copy_in [OF m(1)]) (simp add: ih)
  show ?case
  proof (cases "a = plist M m")
    case True
    then show ?thesis by (simp add: Let_def st)
  next
    case False
    then show ?thesis by (auto simp: Let_def ih lessThan_Suc)
  qed
qed

lemma copy_back_copy_in_all:
  "copy_back M (copy_in ZERO M h w) (num_patches M) h
     = (\<lambda>a. if a \<in> plist M ` {..<num_patches M} then settle ZERO (h a) else h a)"
  by (rule ext) (simp add: copy_back_copy_in)

lemma copy_in_settled:
  assumes "\<And>i. i < num_patches M \<Longrightarrow> h' (plist M i) = settle ZERO (h (plist M i))"
  shows "copy_in ZERO M h' (copy_in ZERO M h w) = copy_in ZERO M h w"
proof -
  have e: "par_for (num_patches M) (\<lambda>i. f (h' (plist M i)))
             (par_for (num_patches M) (\<lambda>i. f (h (plist M i))) old)
           = par_for (num_patches M) (\<lambda>i. f (h (plist M i))) old"
    if "\<And>p. f (settle ZERO p) = f p" for f :: "patch_object \<Rightarrow> real" and old
    using that assms by (auto simp: par_for_def fun_eq_iff)
  have wz: "par_for (num_patches M)
              (\<lambda>i. z (h' (plist M i))
                   - (if sat_deficit_z (h' (plist M i)) > ZERO then sat_deficit_z (h' (plist M i)) else ZERO))
              (par_for (num_patches M)
                (\<lambda>i. z (h (plist M i))
                     - (if sat_deficit_z (h (plist M i)) > ZERO then sat_deficit_z (h (plist M i)) else ZERO))
                old)
            = par_for (num_patches M)
                (\<lambda>i. z (h (plist M i))
                     - (if sat_deficit_z (h (plist M i)) > ZERO then sat_deficit_z (h (plist M i)) else ZERO))
                old" for old
    using assms by (auto simp: par_for_def fun_eq_iff settle_def)
  have wt: "par_for (num_patches M)
              (\<lambda>i. field_capacity (h' (plist M i)) - sat_deficit (h' (plist M i)))
              (par_for (num_patches M)
                (\<lambda>i. field_capacity (h (plist M i)) - sat_deficit (h (plist M i))) old)
            = par_for (num_patches M)
                (\<lambda>i. field_capacity (h (plist M i)) - sat_deficit (h (plist M i))) old" for old
    using assms by (auto simp: par_for_def fun_eq_iff settle_def)
  show ?thesis
    unfolding copy_in_def Let_def by (simp add: e wz wt settle_def)
qed

lemma settle_settle: "settle ZERO (settle ZERO p) = settle ZERO p"
  by (simp add: settle_def)

lemma hydro_routing_zero_step:
  assumes "extstep \<le> EPSILON"
  shows "hydro_routing fuel ZERO zfinal M st beyond extstep (h, w)
           = Some (\<lambda>a. if a \<in> plist M ` {..<num_patches M} then settle ZERO (h a) else h a,
                   copy_in ZERO M h w)"
  using assms
  by (simp add: hydro_routing_def Let_def coupling_loop_zero_step copy_back_copy_in_all)

text \<open>
  Claim C9. A call of \<^verbatim>\<open>hydro_routing\<close> with an external step that is not above
  \<^verbatim>\<open>EPSILON\<close> runs no coupling iteration and returns; a second such call on the patches
  (and working columns) that the first one left returns exactly these patches again.
  The first call leaves every patch of the route list as it was, up to a
  \<open>sat_deficit_z\<close> not above \<^verbatim>\<open>ZERO\<close>, which becomes \<^verbatim>\<open>ZERO\<close>, and touches no other patch.
  The doubles are reals here: the equalities are those of exact arithmetic.
\<close>

theorem zero_step_copy_is_idempotent:
  assumes "extstep \<le> EPSILON"
  shows "\<exists>h1 w1.
           hydro_routing fuel ZERO zfinal M st beyond extstep (h0, w0) = Some (h1, w1)
         \<and> hydro_routing fuel' ZERO zfinal' M st' beyond' extstep (h1, w1) = Some (h1, w1)
         \<and> h1 = (\<lambda>a. if a \<in> plist M ` {..<num_patches M} then settle ZERO (h0 a) else h0 a)"
proof -
  let ?h1 = "\<lambda>a. if a \<in> plist M ` {..<num_patches M} then settle ZERO (h0 a) else h0 a"
  let ?w1 = "copy_in ZERO M h0 w0"
  have first: "hydro_routing fuel ZERO zfinal M st beyond extstep (h0, w0) = Some (?h1, ?w1)"
    by (rule hydro_routing_zero_step [OF assms])
  have w: "copy_in ZERO M ?h1 ?w1 = ?w1"
    by (rule copy_in_settled) auto
  have h: "(\<lambda>a. if a \<in> plist M ` {..<num_patches M} then settle ZERO (?h1 a) else ?h1 a) = ?h1"
    by (auto simp: fun_eq_iff settle_settle)
  have second: "hydro_routing fuel' ZERO zfinal' M st' beyond' extstep (?h1, ?w1) = Some (?h1, ?w1)"
    unfolding hydro_routing_zero_step [OF assms] w h ..
  show ?thesis
    using first second by blast
qed

lemma wet_patch_settled: "settle ZERO8 wet_patch = wet_patch"
  by (simp add: settle_def wet_patch_def ZERO8_def)

text \<open>The witness: a zero step on the one-patch basin; the patch comes back as it was.\<close>

theorem zero_step_copy_is_idempotent_witness:
  "(0::real) \<le> EPSILON
   \<and> (\<exists>h1 w1.
         hydro_routing 0 ZERO8 (\<lambda>v p0 p d zi dw. 0) one_patch no_stack (\<lambda>k. no_pools) 0
           (\<lambda>a. wet_patch, blank) = Some (h1, w1)
       \<and> hydro_routing 0 ZERO8 (\<lambda>v p0 p d zi dw. 0) one_patch no_stack (\<lambda>k. no_pools) 0
           (h1, w1) = Some (h1, w1)
       \<and> h1 = (\<lambda>a. wet_patch))"
proof -
  have e: "(0::real) \<le> EPSILON" by (simp add: EPSILON_def)
  show ?thesis
    using zero_step_copy_is_idempotent [OF e, of 0 ZERO8 "\<lambda>v p0 p d zi dw. 0" one_patch no_stack
        "\<lambda>k. no_pools" "\<lambda>a. wet_patch" blank 0 "\<lambda>v p0 p d zi dw. 0" no_stack "\<lambda>k. no_pools"] e
    by (simp add: wet_patch_settled cong: if_cong)
qed

section \<open>The coupling loop of \<^verbatim>\<open>hydro_routing\<close>\<close>

text \<open>The run of the loop from a remaining time \<open>t\<close>, for a body that keeps an invariant
  \<open>Inv\<close> of the remaining time and the state together: whenever the loop is entered,
  the body returns, and its substep lies between \<open>tau_min\<close> and the remaining time.\<close>

lemma coupling_loop_run:
  fixes tau_min :: real
  assumes tm: "0 < tau_min"
    and body: "\<And>t w. Inv t w \<Longrightarrow> EPSILON < t \<Longrightarrow>
                 \<exists>tau w'. body t w = Some (tau, w') \<and> tau_min \<le> tau \<and> tau \<le> t \<and> Inv (t - tau) w'"
  shows "Inv t w \<Longrightarrow> 0 \<le> t \<Longrightarrow> nat \<lceil>t / tau_min\<rceil> \<le> fuel \<Longrightarrow>
         \<exists>taus w'. coupling_loop body fuel t w = Some (taus, w')
            \<and> length taus \<le> nat \<lceil>t / tau_min\<rceil>
            \<and> sum_list taus \<le> t \<and> t - sum_list taus \<le> EPSILON"
proof (induction fuel arbitrary: t w)
  case 0
  have "\<lceil>t / tau_min\<rceil> \<le> 0" using 0 by simp
  then have "t / tau_min \<le> 0" by (simp add: ceiling_le_iff)
  then have "t \<le> 0" using tm by (simp add: divide_le_0_iff)
  then have t0: "t = 0" using 0 by simp
  then show ?case by (simp add: EPSILON_def)
next
  case (Suc fuel)
  show ?case
  proof (cases "EPSILON < t")
    case False
    then show ?thesis using Suc.prems by simp
  next
    case True
    from body [OF Suc.prems(1) True] obtain tau w1 where
      b: "body t w = Some (tau, w1)" and lo: "tau_min \<le> tau" and hi: "tau \<le> t"
      and inv: "Inv (t - tau) w1" by blast
    have nn: "0 \<le> t - tau" using hi by simp
    have "(t - tau) / tau_min \<le> t / tau_min - 1"
      using tm lo by (simp add: field_simps)
    then have cl: "\<lceil>(t - tau) / tau_min\<rceil> \<le> \<lceil>t / tau_min\<rceil> - 1"
      by (metis ceiling_diff_one ceiling_mono)
    have pos: "1 \<le> \<lceil>t / tau_min\<rceil>"
    proof -
      have "0 < t / tau_min" using True tm by (simp add: EPSILON_def)
      then show ?thesis by (simp add: less_ceiling_iff)
    qed
    have fu: "nat \<lceil>(t - tau) / tau_min\<rceil> \<le> fuel"
      using cl pos Suc.prems(3) by linarith
    from Suc.IH [OF inv nn fu] obtain taus w' where
      r: "coupling_loop body fuel (t - tau) w1 = Some (taus, w')"
      and len: "length taus \<le> nat \<lceil>(t - tau) / tau_min\<rceil>"
      and s1: "sum_list taus \<le> t - tau" and s2: "t - tau - sum_list taus \<le> EPSILON"
      by blast
    have "coupling_loop body (Suc fuel) t w = Some (tau # taus, w')"
      using True b r by simp
    moreover have "length (tau # taus) \<le> nat \<lceil>t / tau_min\<rceil>"
      using len cl pos by simp linarith
    moreover have "sum_list (tau # taus) \<le> t" "t - sum_list (tau # taus) \<le> EPSILON"
      using s1 s2 by simp_all
    ultimately show ?thesis by blast
  qed
qed

text \<open>
  Claim C8. Let the external step be positive, and let every pass of the loop body
  that the run makes return a substep \<open>tau\<close> with \<open>tau_min \<le> tau \<le> t\<close>, where \<open>t\<close> is the
  time that remains and \<open>tau_min > 0\<close> is fixed (the passes of the run are those at the
  pairs of remaining time and state that satisfy \<open>Inv\<close>). Then the coupling loop ends
  after at most \<open>\<lceil>extstep / tau_min\<rceil>\<close> iterations, which is within the claimed
  \<open>\<lceil>extstep / tau_min\<rceil> + 1\<close>: that much fuel makes it return. The substeps it took add up
  to the external step to within \<^verbatim>\<open>EPSILON\<close>. The loop of \<^verbatim>\<open>hydro_routing\<close> is
  \<open>coupling_loop\<close> with the body \<open>coupling_body\<close>, whose substep is the one that
  \<^verbatim>\<open>sub_routing\<close> writes.
\<close>

theorem coupling_loop_terminates:
  fixes extstep tau_min :: real
  assumes "0 < extstep" and "0 < tau_min" and "Inv extstep w0"
    and "\<forall>t w. Inv t w \<and> EPSILON < t \<longrightarrow>
           (\<exists>tau w'. body t w = Some (tau, w') \<and> tau_min \<le> tau \<and> tau \<le> t \<and> Inv (t - tau) w')"
    and "nat \<lceil>extstep / tau_min\<rceil> \<le> fuel"
  shows "\<exists>taus w'. coupling_loop body fuel extstep w0 = Some (taus, w')
           \<and> length taus \<le> nat \<lceil>extstep / tau_min\<rceil>
           \<and> length taus \<le> nat \<lceil>extstep / tau_min\<rceil> + 1
           \<and> \<bar>sum_list taus - extstep\<bar> \<le> EPSILON"
proof -
  have b: "\<exists>tau w'. body t w = Some (tau, w') \<and> tau_min \<le> tau \<and> tau \<le> t \<and> Inv (t - tau) w'"
    if "Inv t w" "EPSILON < t" for t w
    using assms(4) that by blast
  have nn: "0 \<le> extstep" using assms(1) by simp
  from coupling_loop_run [of tau_min Inv body, OF assms(2) b assms(3) nn assms(5)]
  obtain taus w' where r: "coupling_loop body fuel extstep w0 = Some (taus, w')"
    and len: "length taus \<le> nat \<lceil>extstep / tau_min\<rceil>"
    and s: "sum_list taus \<le> extstep" "extstep - sum_list taus \<le> EPSILON"
    by blast
  have "\<bar>sum_list taus - extstep\<bar> \<le> EPSILON" using s by simp
  then show ?thesis using r len by auto
qed

lemma flat_sub_dt:
  assumes "t = 3600 \<or> t = 1800"
  shows "sub_dt ZERO flat_patch h w t = 1800"
  using assms
  by (auto simp: sub_dt_def sub_cmax_def flat_patch_sel COUMAX_def CPLMAX_def)

lemma flat_sfc_dt: "sfc_dt flat_patch w 1800 0 = 1800"
  by (simp add: sfc_dt_def sfc_cmax_def flat_patch_sel COUMAX_def Let_def)

text \<open>On the flat cell every step returns columns: the detention depth is positive, so
  water above it is not zero, and the soil takes no water.\<close>

lemma flat_sfc_step:
  "\<exists>w'. snd (sfc_step ZERO8 flat_patch h beyond tstep t w) = Some w'"
proof -
  have "\<exists>r. sfc_rate flat_patch w 0 = Some r"
    by (simp add: sfc_rate_def Let_def flat_patch_sel)
  then obtain r where r: "sfc_rate flat_patch w 0 = Some r" by blast
  have u: "sfc_update ZERO8 flat_patch h w out dt 0 = Some (sfc_advect flat_patch w out dt 0, inf_pools w 0)"
    for out dt
    by (simp add: sfc_update_def Let_def flat_patch_sel ZERO8_def)
  show ?thesis
    by (simp add: sfc_step_def Let_def sfc_out_def flat_patch_sel r u)
qed

lemma flat_sfc_routing:
  "\<exists>w'. sfc_routing 3 ZERO8 flat_patch h beyond 1800 w = Inr w'"
proof -
  let ?n = "num_patches flat_patch"
  let ?w0 = "w\<lparr>infH2O := par_for ?n (\<lambda>i. 0) (infH2O w),
               infNO3 := par_for ?n (\<lambda>i. 0) (infNO3 w),
               infNH4 := par_for ?n (\<lambda>i. 0) (infNH4 w),
               infDOC := par_for ?n (\<lambda>i. 0) (infDOC w),
               infDON := par_for ?n (\<lambda>i. 0) (infDON w)\<rparr>"
  from flat_sfc_step [of h beyond 1800 0 ?w0] obtain w1 where
    s: "snd (sfc_step ZERO8 flat_patch h beyond 1800 0 ?w0) = Some w1" by blast
  have d: "fst (sfc_step ZERO8 flat_patch h beyond 1800 0 ?w0) = 1800"
    by (simp only: fst_sfc_step flat_sfc_dt)
  have e: "EPSILON < 1800" by (simp add: EPSILON_def)
  have "sfc_routing 3 ZERO8 flat_patch h beyond 1800 w = sfc_loop (Suc 2) ZERO8 flat_patch h beyond 1800 0 ?w0"
    by (simp only: sfc_routing_def Let_def numeral_3_eq_3 numeral_2_eq_2)
  then show ?thesis
    using sfc_loop_one_step [OF s d e, of 2] by simp
qed

lemma flat_body:
  assumes "t = 3600 \<or> t = 1800"
  shows "\<exists>w'. coupling_body 3 ZERO8 zfinal flat_patch h st beyond t w = Some (1800, w')"
proof -
  have f: "fst (sub_routing ZERO8 flat_patch h st t w) = 1800"
    using flat_sub_dt [OF assms] by (simp add: fst_sub_routing)
  from flat_sfc_routing [of h beyond
        "can_routing flat_patch 1800 (snd (sub_routing ZERO8 flat_patch h st t w))"]
  obtain w3 where "sfc_routing 3 ZERO8 flat_patch h beyond 1800
      (can_routing flat_patch 1800 (snd (sub_routing ZERO8 flat_patch h st t w))) = Inr w3"
    by blast
  then show ?thesis
    using f by (simp add: coupling_body_def Let_def)
qed

text \<open>The witness: the body of \<^verbatim>\<open>hydro_routing\<close> on the flat cell, with an
  external step of 3600 s. The remaining time is 3600, 1800 or 0; with 3600 or 1800 s
  remaining every pass returns the substep 1800 s, so \<open>tau_min\<close> is 1800 s. The loop ends
  within two iterations.\<close>

theorem coupling_loop_terminates_witness:
  "(0::real) < 3600 \<and> (0::real) < 1800
   \<and> (\<forall>w. \<exists>w'. coupling_body 3 ZERO8 (\<lambda>v p0 p d zi dw. 0) flat_patch (\<lambda>a. wet_patch) no_stack
                  (\<lambda>k. no_pools) 3600 w = Some (1800, w'))
   \<and> (\<forall>w. \<exists>w'. coupling_body 3 ZERO8 (\<lambda>v p0 p d zi dw. 0) flat_patch (\<lambda>a. wet_patch) no_stack
                  (\<lambda>k. no_pools) 1800 w = Some (1800, w'))
   \<and> nat \<lceil>3600 / (1800::real)\<rceil> \<le> 3
   \<and> (\<exists>taus w'. coupling_loop
           (coupling_body 3 ZERO8 (\<lambda>v p0 p d zi dw. 0) flat_patch (\<lambda>a. wet_patch) no_stack (\<lambda>k. no_pools))
           3 3600 wet_work = Some (taus, w')
         \<and> length taus \<le> 2 \<and> \<bar>sum_list taus - 3600\<bar> \<le> EPSILON)"
proof -
  let ?body = "coupling_body 3 ZERO8 (\<lambda>v p0 p d zi dw. 0) flat_patch (\<lambda>a. wet_patch) no_stack (\<lambda>k. no_pools)"
  let ?Inv = "\<lambda>(t::real) (w::work). t = 3600 \<or> t = 1800 \<or> t = 0"
  have h: "\<forall>t w. ?Inv t w \<and> EPSILON < t \<longrightarrow>
         (\<exists>tau w'. ?body t w = Some (tau, w') \<and> 1800 \<le> tau \<and> tau \<le> t \<and> ?Inv (t - tau) w')"
  proof (intro allI impI)
    fix t :: real and w :: work
    assume a: "?Inv t w \<and> EPSILON < t"
    then have t: "t = 3600 \<or> t = 1800" by (auto simp: EPSILON_def)
    from flat_body [OF t] obtain w' where "?body t w = Some (1800, w')" by blast
    then show "\<exists>tau w'. ?body t w = Some (tau, w') \<and> 1800 \<le> tau \<and> tau \<le> t \<and> ?Inv (t - tau) w'"
      using t by auto
  qed
  have f: "nat \<lceil>3600 / (1800::real)\<rceil> \<le> 3" by simp
  have c: "nat \<lceil>3600 / (1800::real)\<rceil> = 2" by simp
  have i: "?Inv 3600 wet_work" by simp
  note t = coupling_loop_terminates [of 3600 1800 ?Inv wet_work ?body 3, OF _ _ i h f, unfolded c]
  have b1: "\<forall>w. \<exists>w'. ?body 3600 w = Some (1800, w')"
    using flat_body [of 3600] by simp
  have b2: "\<forall>w. \<exists>w'. ?body 1800 w = Some (1800, w')"
    using flat_body [of 1800] by simp
  show ?thesis
    using t b1 b2 f by auto
qed

section \<open>The pools across the components\<close>

subsection \<open>The surface inflow matrix\<close>






subsection \<open>One internal step of \<^verbatim>\<open>sfc_routing\<close>\<close>







subsection \<open>The internal loop, and the components of one pass\<close>













subsection \<open>A pass on two level cells\<close>













section \<open>The transmissivity pass at a concrete patch\<close>

lemma nine: "(9::nat) = Suc (Suc (Suc (Suc (Suc (Suc (Suc (Suc (Suc 0))))))))"
  by simp

text \<open>Where \<open>pscale\<close> is not positive, the code computes what the specification says.\<close>

lemma trans_patch_unscaled:
  "\<not> ps > 0 \<Longrightarrow> trans_patch patch ps ns dz = trans_claimed patch ps ns dz"
  by (simp add: trans_patch_def trans_claimed_def)

lemma graded_indices:
  "trans_index 20 (1 / 10) (1 / 10) (6 / 10) 0 = 10"
  "min (int 20) (lround ((6 / 10 + normal ! 0 * (1 / 10)) / (1 / 10))) = 6"
  "trans_index 20 (1 / 10) (1 / 10) (6 / 10) 8 = 0"
  "min (int 20) (lround ((6 / 10 + normal ! 8 * (1 / 10)) / (1 / 10))) = 5"
  by (simp_all add: trans_index_def lround_def trunc_int_def normal_def)

lemma graded_trans:
  "trans_patch graded_patch (1 / 10) 20 (1 / 10) = 9"
  "trans_claimed graded_patch (1 / 10) 20 (1 / 10) = 6"
  by (simp_all add: trans_patch_def trans_claimed_def nine graded_sel trans_index_def lround_def
      trunc_int_def normal_def perc_def)

text \<open>
  Claim C4, at a failing input: a patch with \<open>sat_deficit = 0.6\<close>, \<open>pscale = 0.1\<close>,
  \<open>nsoil = 20\<close>, \<open>dzsoil = 0.1\<close> and the profile \<open>transmissivity_profile[n] = n\<close>. The code
  rounds \<open>sat_deficit + normal[m]\<cdot>pscale\<close> first and divides by \<open>dzsoil\<close> then: for
  \<open>m = 0\<close> it reads the subscript \<open>lround(0.6) / 0.1 = 10\<close> where the claim has
  \<open>round(0.6 / 0.1) = 6\<close>, and for \<open>m = 8\<close> the subscript 0 where the claim has 5. The code's
  \<open>trans[i]\<close> is 9, the claimed one is 6.
\<close>

theorem transmissivity_rounds_before_dividing:
  "trans_patch graded_patch (1 / 10) 20 (1 / 10) = 9
   \<and> trans_claimed graded_patch (1 / 10) 20 (1 / 10) = 6
   \<and> trans_index 20 (1 / 10) (1 / 10) (sat_deficit graded_patch) 0 = 10
   \<and> min (int 20) (lround ((sat_deficit graded_patch + normal ! 0 * (1 / 10)) / (1 / 10))) = 6
   \<and> trans_index 20 (1 / 10) (1 / 10) (sat_deficit graded_patch) 8 = 0
   \<and> min (int 20) (lround ((sat_deficit graded_patch + normal ! 8 * (1 / 10)) / (1 / 10))) = 5"
  unfolding graded_sel by (intro conjI graded_trans graded_indices)

section \<open>The serial loop of \<^verbatim>\<open>init_hydro_routing\<close> on three patches\<close>

lemma init_serial_three:
  "init_serial three_dcount dfrac three_nbr 3 (three_base ndx0 gam0 sub0)
     = Inr (three_built dfrac ndx0 gam0 sub0)"
proof -
  have "init_serial three_dcount dfrac three_nbr (Suc (Suc (Suc 0))) (three_base ndx0 gam0 sub0)
      = Inr (three_built dfrac ndx0 gam0 sub0)"
    by (simp add: sfc_invert_def Let_def three_base_sel three_dcount_def three_nbr_def
        patchdex_def MAXNEIGHBOR_def numeral_3_eq_3)
      (simp add: three_built_def three_base_def fun_eq_iff)
  then show ?thesis by (simp add: numeral_3_eq_3)
qed

lemma three_inflow_lists:
  "built_sfc_inflow (three_built dfrac ndx0 gam0 sub0) 0 = [(0, dfrac 0 0)]"
  "claimed_sfc_inflow (three_base ndx0 gam0 sub0) three_dcount dfrac three_nbr 0 = [(2, dfrac 2 0)]"
  "built_sfc_inflow (three_built dfrac ndx0 gam0 sub0) 1 = []"
  "claimed_sfc_inflow (three_base ndx0 gam0 sub0) three_dcount dfrac three_nbr 1 = [(2, dfrac 2 1)]"
  "built_sub_inflow (three_built dfrac ndx0 gam0 sub0) 0 = [2, sub0 0 1]"
  "claimed_sub_inflow (three_base ndx0 gam0 sub0) 0 = [1, 2]"
  by (simp_all add: built_sfc_inflow_def claimed_sfc_inflow_def built_sub_inflow_def
      claimed_sub_inflow_def three_built_sel three_base_sel numeral_3_eq_3 numeral_2_eq_2
      three_dcount_def three_nbr_def patchdex_def)

text \<open>
  Claim C2, at a failing input: three patches; on the surface patch 2 drains into the
  patches 0 and 1, below the ground the patches 1 and 2 drain into patch 0. The serial
  loop returns the tables of \<open>three_built\<close>. For the surface edge \<open>2 \<rightarrow> 0\<close> it stores the
  source subscript 0 (the edge subscript \<open>j\<close>) and the weight \<open>dfrac[0][0]\<close> (row \<open>k\<close>) where
  the claim has the source 2 and the weight \<open>dfrac[2][0]\<close>; it leaves the loop after that
  edge, so the edge \<open>2 \<rightarrow> 1\<close> never reaches the inflow list of patch 1. Below the ground
  both edges into patch 0 are written to slot 0 of its list: the list counts two
  entries, the source 2 and a slot that was never written, where the claim has the
  sources 1 and 2.
\<close>

theorem serial_loop_inverts_one_edge_per_patch:
  "init_serial three_dcount dfrac three_nbr 3 (three_base ndx0 gam0 sub0)
     = Inr (three_built dfrac ndx0 gam0 sub0)
   \<and> built_sfc_inflow (three_built dfrac ndx0 gam0 sub0) 0 = [(0, dfrac 0 0)]
   \<and> claimed_sfc_inflow (three_base ndx0 gam0 sub0) three_dcount dfrac three_nbr 0 = [(2, dfrac 2 0)]
   \<and> built_sfc_inflow (three_built dfrac ndx0 gam0 sub0) 1 = []
   \<and> claimed_sfc_inflow (three_base ndx0 gam0 sub0) three_dcount dfrac three_nbr 1 = [(2, dfrac 2 1)]
   \<and> built_sub_inflow (three_built dfrac ndx0 gam0 sub0) 0 = [2, sub0 0 1]
   \<and> claimed_sub_inflow (three_base ndx0 gam0 sub0) 0 = [1, 2]"
  by (intro conjI init_serial_three three_inflow_lists)

section \<open>\<^verbatim>\<open>sub_routing\<close> on a level water table\<close>

text \<open>Without a slope above \<^verbatim>\<open>ZERO\<close> on any outflow edge the reduction leaves \<open>cmax\<close> at
  its initial value, and the coupling step is \<open>min(tstep, CPLMAX)\<close>: this half of claim C7
  holds for every mesh.\<close>

lemma cmax_edges_level:
  assumes "\<And>j. j < n \<Longrightarrow> \<not> sub_slope M w i j > ZERO"
  shows "cmax_edges ZERO M w tr i n c = c"
  using assms by (induction n) (simp_all add: Let_def)

lemma cmax_patches_level:
  assumes "\<And>i j. i < n \<Longrightarrow> j < subcnto M i \<Longrightarrow> \<not> sub_slope M w i j > ZERO"
  shows "cmax_patches ZERO M w tr n c = c"
  using assms by (induction n) (simp_all add: cmax_edges_level)

lemma no_descent_no_slope:
  assumes "0 \<le> ZERO" and "0 \<le> subdist M i j" and "waterz w i \<le> waterz w (subndxo M i j)"
  shows "\<not> sub_slope M w i j > ZERO"
proof -
  have "(waterz w i - waterz w (subndxo M i j)) / subdist M i j \<le> 0"
    using assms(2,3) by (simp add: divide_nonpos_nonneg)
  then show ?thesis using assms(1) by (simp add: sub_slope_def)
qed

lemma level_water_table_step:
  assumes "\<And>i j. i < num_patches M \<Longrightarrow> j < subcnto M i \<Longrightarrow> \<not> sub_slope M w i j > ZERO"
  shows "fst (sub_routing ZERO M h st tstep w) = min tstep CPLMAX"
proof -
  have "sub_cmax ZERO M h w tstep = COUMAX / min tstep CPLMAX"
    unfolding sub_cmax_def using assms by (rule cmax_patches_level)
  then show ?thesis
    by (simp add: fst_sub_routing sub_dt_def COUMAX_def)
qed

lemma three_flat:
  "sub_slope (three_built dfrac ndx0 gam0 sub0) (w\<lparr>waterz := (\<lambda>i. c)\<rparr>) i j = 0"
  "fst (sub_routing ZERO8 (three_built dfrac ndx0 gam0 sub0) h st 60 (w\<lparr>waterz := (\<lambda>i. c)\<rparr>)) = 60"
  "latH2O (snd (sub_routing ZERO8 (three_built dfrac ndx0 gam0 sub0) h st 60 (w\<lparr>waterz := (\<lambda>i. c)\<rparr>))) 0
       = dH2Odt0 st (sub0 0 1) 1 * 60"
  by (simp_all add: sub_routing_def Let_def sub_dt_def sub_cmax_def sub_lat_def
      sub_outH2O_def dH2Odt_def dH2Odt_edge_def sub_slope_def three_built_sel numeral_3_eq_3
      numeral_2_eq_2 COUMAX_def CPLMAX_def ZERO8_def)

lemma three_inverse_flat:
  "built_sub_inflow (three_inverse ndx0 gam0 sub0) 0 = [1, 2]"
  "latH2O (snd (sub_routing ZERO8 (three_inverse ndx0 gam0 sub0) h st 60 (w\<lparr>waterz := (\<lambda>i. c)\<rparr>))) 0
       = dH2Odt0 st 2 1 * 60"
  by (simp_all add: built_sub_inflow_def sub_routing_def Let_def sub_dt_def sub_cmax_def sub_lat_def
      sub_outH2O_def dH2Odt_def dH2Odt_edge_def sub_slope_def three_inverse_sel numeral_3_eq_3
      numeral_2_eq_2 COUMAX_def CPLMAX_def ZERO8_def)

text \<open>
  Claim C7, at a failing input: the three patches with the inflow tables that the serial
  loop builds, a water table at the same elevation \<open>c\<close> everywhere (so every slope is 0)
  and a budget of 60 s. The coupling step is \<open>min(60, 1800) = 60\<close>, as claimed. The inflow
  list of patch 0 counts two slots; the second one was never written, and whatever
  source \<open>k = sub0 0 1\<close> it names, \<^verbatim>\<open>dH2Odt[k][1]\<close> is an entry of the stack array that the
  rate pass did not write (no patch has a second outflow edge). \<open>latH2O[0]\<close> is 60 times
  that unwritten value, where the claim has 0. With the inflow tables as the
  specification describes them (the sources 1 and 2 in the list of patch 0) the pass
  reads \<^verbatim>\<open>dH2Odt[2][1]\<close>, which is unwritten as well: it takes the slot of the receiver's
  inflow list for the subscript of the edge in the source's outflow list.
\<close>

theorem flat_water_table_reads_unwritten_rates:
  "init_serial three_dcount dfrac three_nbr 3 (three_base ndx0 gam0 sub0)
     = Inr (three_built dfrac ndx0 gam0 sub0)
   \<and> sub_slope (three_built dfrac ndx0 gam0 sub0) (w\<lparr>waterz := (\<lambda>i. c)\<rparr>) i j = 0
   \<and> fst (sub_routing ZERO8 (three_built dfrac ndx0 gam0 sub0) h st 60 (w\<lparr>waterz := (\<lambda>i. c)\<rparr>)) = 60
   \<and> latH2O (snd (sub_routing ZERO8 (three_built dfrac ndx0 gam0 sub0) h st 60 (w\<lparr>waterz := (\<lambda>i. c)\<rparr>))) 0
       = dH2Odt0 st (sub0 0 1) 1 * 60
   \<and> built_sub_inflow (three_inverse ndx0 gam0 sub0) 0 = [1, 2]
   \<and> latH2O (snd (sub_routing ZERO8 (three_inverse ndx0 gam0 sub0) h st 60 (w\<lparr>waterz := (\<lambda>i. c)\<rparr>))) 0
       = dH2Odt0 st 2 1 * 60"
  by (intro conjI init_serial_three three_flat three_inverse_flat)

end
